theory Spec2Isabelle
  imports Complex_Main
begin

section \<open>Python values\<close>

text \<open>
  A Python \<open>float\<close> is represented by the number it denotes: a finite double by that
  real number, \<open>Fin 0\<close> being \<open>0.0\<close>. Negative zero has a constructor of its own,
  since \<open>str\<close> prints it as \<open>-0.0\<close>, and so have the three special values. No
  floating-point arithmetic is performed by the code modelled here; floats are only
  compared with zero, parsed and printed.
\<close>

datatype pyfloat = Fin real | NegZero | PosInf | NegInf | NaN

text \<open>The comparison \<open>x == 0\<close> on a float: true for both zeros, false for everything else.\<close>

fun eq_zero :: "pyfloat \<Rightarrow> bool" where
  "eq_zero (Fin r) = (r = 0)"
| "eq_zero NegZero = True"
| "eq_zero PosInf = False"
| "eq_zero NegInf = False"
| "eq_zero NaN = False"

text \<open>
  The argument values the schemas and the builders receive. A list argument is
  represented by the floats that the element validator of \<open>List[float]\<close> yields for its
  elements (the integer \<open>10\<close> as \<open>Fin 10\<close>): lists holding an element that is not a
  number are outside this model. A member of the string-valued enumeration is a \<open>str\<close>
  and is represented by \<open>PyStr\<close> of its value.
\<close>

datatype pyval =
    PyNone
  | PyBool bool
  | PyInt int
  | PyFloat pyfloat
  | PyStr string
  | PyList "pyfloat list"

subsection \<open>\<open>str.lower\<close>\<close>

text \<open>
  Lowercasing maps the letters \<open>A\<close> to \<open>Z\<close> to \<open>a\<close> to \<open>z\<close> and leaves every other
  character of the model alone. Characters outside ASCII never lowercase to one of the
  letters of the four operation names, so they cannot affect membership.
\<close>

definition lower_char :: "char \<Rightarrow> char" where
  "lower_char c =
     (case map_of (zip ''ABCDEFGHIJKLMNOPQRSTUVWXYZ'' ''abcdefghijklmnopqrstuvwxyz'') c of
        Some l \<Rightarrow> l
      | None \<Rightarrow> c)"

definition py_lower :: "string \<Rightarrow> string" where
  "py_lower s = map lower_char s"

section \<open>The calculation schemas (\<open>app/schemas/calculations.py\<close>)\<close>

datatype CalculationType = ADDITION | SUBTRACTION | MULTIPLICATION | DIVISION

fun enum_value :: "CalculationType \<Rightarrow> string" where
  "enum_value ADDITION = ''addition''"
| "enum_value SUBTRACTION = ''subtraction''"
| "enum_value MULTIPLICATION = ''multiplication''"
| "enum_value DIVISION = ''division''"

definition members :: "CalculationType list" where
  "members = [ADDITION, SUBTRACTION, MULTIPLICATION, DIVISION]"

text \<open>\<open>allowed = {e.value for e in CalculationType}\<close>\<close>

definition allowed :: "string set" where
  "allowed = set (map enum_value members)"

text \<open>
  The validation library reports a failed construction as one \<open>ValidationError\<close> that
  lists every failing location with the kind of its failure. A \<open>ValueError\<close> raised by
  a validator of the schema is listed as \<open>value_error\<close> with the message raised.
\<close>

datatype error_type =
    missing
  | value_error string
  | too_short
  | list_type
  | enum_error

type_synonym line_error = "string list \<times> error_type"

text \<open>Conversion of a value to the enumeration: lookup among the members' values.\<close>

definition enum_of_value :: "string \<Rightarrow> CalculationType option" where
  "enum_of_value s = find (\<lambda>e. enum_value e = s) members"

fun enum_validator :: "pyval \<Rightarrow> error_type + CalculationType" where
  "enum_validator (PyStr s) =
     (case enum_of_value s of Some e \<Rightarrow> Inr e | None \<Rightarrow> Inl enum_error)"
| "enum_validator _ = Inl enum_error"

text \<open>
  The validator of \<open>List[float]\<close> with the length bound that \<open>min_items=2\<close> sets: the
  library checks the bound itself, before any validator of the model runs.
\<close>

fun list_validator :: "nat \<Rightarrow> pyval \<Rightarrow> error_type + pyfloat list" where
  "list_validator min_length (PyList xs) =
     (if length xs < min_length then Inl too_short else Inr xs)"
| "list_validator min_length _ = Inl list_type"

subsection \<open>\<open>CalculationBase\<close>\<close>

text \<open>
  The message of the \<open>ValueError\<close> of \<open>validate_type\<close>: the value of its f-string, the
  allowed names sorted and joined by a comma and a space.
\<close>

definition type_message :: string where
  "type_message = ''Type must be one of: addition, division, multiplication, subtraction''"

text \<open>\<open>validate_type\<close>, the \<open>before\<close> validator of the field \<open>type\<close>.\<close>

fun validate_type :: "pyval \<Rightarrow> error_type + pyval" where
  "validate_type (PyStr v) =
     (if py_lower v \<notin> allowed then Inl (value_error type_message)
      else Inr (PyStr (py_lower v)))"
| "validate_type _ = Inl (value_error type_message)"

text \<open>\<open>check_inputs_is_list\<close>, the \<open>before\<close> validator of the field \<open>inputs\<close>.\<close>

fun check_inputs_is_list :: "pyval \<Rightarrow> error_type + pyval" where
  "check_inputs_is_list (PyList xs) = Inr (PyList xs)"
| "check_inputs_is_list _ = Inl (value_error ''Input should be a valid list'')"

record calculation =
  calc_type :: CalculationType
  inputs :: "pyfloat list"

text \<open>\<open>validate_inputs\<close>, the \<open>after\<close> validator of the model.\<close>

definition validate_inputs :: "calculation \<Rightarrow> error_type + calculation" where
  "validate_inputs self =
     (if length (inputs self) < 2
      then Inl (value_error ''At least two numbers are required for calculation'')
      else if calc_type self = DIVISION \<and> list_ex eq_zero (drop 1 (inputs self))
      then Inl (value_error ''Cannot divide by zero'')
      else Inr self)"

text \<open>
  The keyword arguments of a construction; \<open>None\<close> is an argument that was not passed.
\<close>

record kwargs =
  type_arg :: "pyval option"
  inputs_arg :: "pyval option"

text \<open>
  One field of a model: a required field that was not passed is \<open>missing\<close>; otherwise
  the \<open>before\<close> validator runs on the raw value and the library's own validator on what
  it returns. An error is listed under the field's name.
\<close>

definition required_field ::
  "string \<Rightarrow> (pyval \<Rightarrow> error_type + pyval) \<Rightarrow> (pyval \<Rightarrow> error_type + 'a) \<Rightarrow>
   pyval option \<Rightarrow> line_error list + 'a" where
  "required_field name before_v inner arg =
     (case arg of
        None \<Rightarrow> Inl [([name], missing)]
      | Some v \<Rightarrow>
          (case before_v v of
             Inl e \<Rightarrow> Inl [([name], e)]
           | Inr v' \<Rightarrow>
               (case inner v' of
                  Inl e \<Rightarrow> Inl [([name], e)]
                | Inr x \<Rightarrow> Inr x)))"

definition field_errors :: "line_error list + 'a \<Rightarrow> line_error list" where
  "field_errors r = (case r of Inl es \<Rightarrow> es | Inr _ \<Rightarrow> [])"

text \<open>
  Construction of a \<open>CalculationBase\<close>: every field is validated, in the order of
  declaration, and the errors of all fields are collected; the \<open>after\<close> validator of the
  model runs only when no field failed, and its error is listed under the empty
  location.
\<close>

definition CalculationBase :: "kwargs \<Rightarrow> line_error list + calculation" where
  "CalculationBase kw =
     (let t = required_field ''type'' validate_type enum_validator (type_arg kw);
          i = required_field ''inputs'' check_inputs_is_list (list_validator 2) (inputs_arg kw)
      in case (t, i) of
           (Inr ty, Inr xs) \<Rightarrow>
             (case validate_inputs \<lparr>calc_type = ty, inputs = xs\<rparr> of
                Inl e \<Rightarrow> Inl [([], e)]
              | Inr self \<Rightarrow> Inr self)
         | _ \<Rightarrow> Inl (field_errors t @ field_errors i))"

subsection \<open>\<open>CalculationUpdate\<close>\<close>

record calculation_update =
  upd_type :: "CalculationType option"
  upd_inputs :: "pyfloat list option"

text \<open>\<open>CalculationUpdate.validate_inputs\<close>, the \<open>after\<close> validator of the update model.\<close>

definition update_validate_inputs :: "calculation_update \<Rightarrow> error_type + calculation_update" where
  "update_validate_inputs self =
     (case upd_inputs self of
        Some xs \<Rightarrow>
          (if length xs < 2
           then Inl (value_error ''At least two numbers are required for calculation'')
           else Inr self)
      | None \<Rightarrow> Inr self)"

text \<open>
  An \<open>Optional\<close> field with default \<open>None\<close>: the default is taken as it is when the
  argument was not passed, \<open>None\<close> is accepted, and any other value goes to the
  library's validator of the inner type. The update model declares no \<open>before\<close>
  validator.
\<close>

definition optional_field ::
  "string \<Rightarrow> (pyval \<Rightarrow> error_type + 'a) \<Rightarrow> pyval option \<Rightarrow> line_error list + 'a option" where
  "optional_field name inner arg =
     (case arg of
        None \<Rightarrow> Inr None
      | Some PyNone \<Rightarrow> Inr None
      | Some v \<Rightarrow>
          (case inner v of
             Inl e \<Rightarrow> Inl [([name], e)]
           | Inr x \<Rightarrow> Inr (Some x)))"

definition CalculationUpdate :: "kwargs \<Rightarrow> line_error list + calculation_update" where
  "CalculationUpdate kw =
     (let t = optional_field ''type'' enum_validator (type_arg kw);
          i = optional_field ''inputs'' (list_validator 2) (inputs_arg kw)
      in case (t, i) of
           (Inr ty, Inr xs) \<Rightarrow>
             (case update_validate_inputs \<lparr>upd_type = ty, upd_inputs = xs\<rparr> of
                Inl e \<Rightarrow> Inl [([], e)]
              | Inr self \<Rightarrow> Inr self)
         | _ \<Rightarrow> Inl (field_errors t @ field_errors i))"

section \<open>The engine invoker (\<open>app/operations/financial.py\<close>)\<close>

subsection \<open>Exceptions and outcomes\<close>

text \<open>
  The exceptions that occur below, each standing for its subclasses too: \<open>OSError\<close>
  (a file that is not found, a broken pipe), \<open>CalledProcessError\<close> with the return
  code, and \<open>ValueError\<close> (a string that is not a float, an integer with too many
  digits, an encoding error).
\<close>

datatype py_exception = OSError | CalledProcessError int | ValueError

text \<open>A call returns a value, raises an exception to its caller, or never returns.\<close>

datatype 'a outcome = Returns 'a | Raises py_exception | Blocks

text \<open>
  What a call of the module does: its outcome, and the command lists it has given to
  \<open>subprocess.run\<close>, in order.
\<close>

record 'a call =
  result :: "'a outcome"
  spawned :: "string list list"

subsection \<open>Built-ins\<close>

text \<open>
  Three facts about the interpreter are parameters: the rounding of a positive real
  number to the nearest double, as \<open>float\<close> does it for a decimal string; \<open>str(x)\<close> on
  a float; and the limit on the digits of an integer that \<open>str\<close> converts
  (\<open>sys.get_int_max_str_digits()\<close>: zero for no limit, otherwise at least 640).
\<close>

record builtins =
  nearest_double :: "real \<Rightarrow> pyfloat"
  str_of_float :: "pyfloat \<Rightarrow> string"
  int_max_str_digits :: nat

text \<open>
  \<open>str\<close> on an integer: its decimal digits, with a minus sign when negative. It raises
  \<open>ValueError\<close> when the integer has more digits than the limit allows.
\<close>

definition digit_char :: "nat \<Rightarrow> char" where
  "digit_char d = ''0123456789'' ! d"

fun str_nat :: "nat \<Rightarrow> string" where
  "str_nat n = (if n < 10 then [digit_char n] else str_nat (n div 10) @ [digit_char (n mod 10)])"

definition str_int :: "builtins \<Rightarrow> int \<Rightarrow> py_exception + string" where
  "str_int py i =
     (if int_max_str_digits py \<noteq> 0 \<and> 10 ^ int_max_str_digits py \<le> \<bar>i\<bar> then Inl ValueError
      else if i < 0 then Inr (CHR ''-'' # str_nat (nat (- i)))
      else Inr (str_nat (nat i)))"

text \<open>\<open>sep.join(xs)\<close>\<close>

fun py_join :: "string \<Rightarrow> string list \<Rightarrow> string" where
  "py_join sep [] = []"
| "py_join sep [x] = x"
| "py_join sep (x # y # ys) = x @ sep @ py_join sep (y # ys)"

fun py_str :: "builtins \<Rightarrow> pyval \<Rightarrow> py_exception + string" where
  "py_str py PyNone = Inr ''None''"
| "py_str py (PyBool b) = Inr (if b then ''True'' else ''False'')"
| "py_str py (PyInt i) = str_int py i"
| "py_str py (PyFloat x) = Inr (str_of_float py x)"
| "py_str py (PyStr s) = Inr s"
| "py_str py (PyList xs) = Inr (''['' @ py_join '', '' (map (str_of_float py) xs) @ '']'')"

text \<open>
  \<open>str\<close> applied to each value of a sequence, from left to right; the first exception
  ends the evaluation.
\<close>

fun str_each :: "builtins \<Rightarrow> pyval list \<Rightarrow> py_exception + string list" where
  "str_each py [] = Inr []"
| "str_each py (v # vs) =
     (case py_str py v of
        Inl e \<Rightarrow> Inl e
      | Inr s \<Rightarrow> (case str_each py vs of Inl e \<Rightarrow> Inl e | Inr ss \<Rightarrow> Inr (s # ss)))"

text \<open>
  \<open>str.strip()\<close> removes leading and trailing whitespace: the characters for which
  \<open>isspace\<close> holds, here those with a code point below 256.
\<close>

definition whitespace :: "char list" where
  "whitespace =
     [CHR 0x09, CHR 0x0A, CHR 0x0B, CHR 0x0C, CHR 0x0D, CHR 0x1C, CHR 0x1D, CHR 0x1E,
      CHR 0x1F, CHR 0x20, CHR 0x85, CHR 0xA0]"

definition py_isspace :: "char \<Rightarrow> bool" where
  "py_isspace c = (c \<in> set whitespace)"

definition py_strip :: "string \<Rightarrow> string" where
  "py_strip s = rev (dropWhile py_isspace (rev (dropWhile py_isspace s)))"

subsection \<open>\<open>float\<close> on a string\<close>

text \<open>
  \<open>float(s)\<close> strips whitespace and accepts, after an optional sign, either one of the
  words \<open>inf\<close>, \<open>infinity\<close> and \<open>nan\<close> in any letter case, or a decimal number: digits
  with an optional point and an optional exponent, where single underscores may stand
  between two digits. On anything else it raises \<open>ValueError\<close>, here \<open>None\<close>.
\<close>

definition is_digit :: "char \<Rightarrow> bool" where
  "is_digit c = (c \<in> set ''0123456789'')"

definition digit_value :: "char \<Rightarrow> nat" where
  "digit_value c =
     (case map_of (zip ''0123456789'' [0, 1, 2, 3, 4, 5, 6, 7, 8, 9]) c of
        Some d \<Rightarrow> d
      | None \<Rightarrow> 0)"

definition digits_value :: "string \<Rightarrow> nat" where
  "digits_value ds = foldl (\<lambda>n c. 10 * n + digit_value c) 0 ds"

text \<open>After a digit: further digits, each with at most one underscore before it.\<close>

fun digits_tail :: "string \<Rightarrow> string \<times> string" where
  "digits_tail [] = ([], [])"
| "digits_tail (c # cs) =
     (if is_digit c then (case digits_tail cs of (ds, r) \<Rightarrow> (c # ds, r))
      else if c = CHR ''_'' then
        (case cs of
           [] \<Rightarrow> ([], c # cs)
         | d # cs' \<Rightarrow>
             (if is_digit d then (case digits_tail cs' of (ds, r) \<Rightarrow> (d # ds, r))
              else ([], c # cs)))
      else ([], c # cs))"

text \<open>A run of digits at the front of a string: its digits and what follows it.\<close>

fun take_digitpart :: "string \<Rightarrow> (string \<times> string) option" where
  "take_digitpart [] = None"
| "take_digitpart (c # cs) =
     (if is_digit c then (case digits_tail cs of (ds, r) \<Rightarrow> Some (c # ds, r)) else None)"

fun take_sign :: "string \<Rightarrow> bool \<times> string" where
  "take_sign [] = (False, [])"
| "take_sign (c # cs) =
     (if c = CHR ''-'' then (True, cs) else if c = CHR ''+'' then (False, cs) else (False, c # cs))"

text \<open>
  The number before the exponent: the digits before the point, the digits after it,
  and what follows. One of the two runs of digits may be missing, not both.
\<close>

definition take_number :: "string \<Rightarrow> (string \<times> string \<times> string) option" where
  "take_number s =
     (case take_digitpart s of
        Some (ip, r) \<Rightarrow>
          (case r of
             [] \<Rightarrow> Some (ip, [], r)
           | c # r' \<Rightarrow>
               (if c = CHR ''.'' then
                  (case take_digitpart r' of
                     Some (fp, r'') \<Rightarrow> Some (ip, fp, r'')
                   | None \<Rightarrow> Some (ip, [], r'))
                else Some (ip, [], r)))
      | None \<Rightarrow>
          (case s of
             [] \<Rightarrow> None
           | c # r' \<Rightarrow>
               (if c = CHR ''.'' then
                  (case take_digitpart r' of
                     Some (fp, r'') \<Rightarrow> Some ([], fp, r'')
                   | None \<Rightarrow> None)
                else None)))"

text \<open>The exponent, which ends the string: nothing, or \<open>e\<close>, a sign and digits.\<close>

definition take_exponent :: "string \<Rightarrow> int option" where
  "take_exponent s =
     (case s of
        [] \<Rightarrow> Some 0
      | c # r \<Rightarrow>
          (if c = CHR ''e'' \<or> c = CHR ''E'' then
             (case take_sign r of
                (neg, r') \<Rightarrow>
                  (case take_digitpart r' of
                     Some (ds, []) \<Rightarrow>
                       Some (if neg then - int (digits_value ds) else int (digits_value ds))
                   | _ \<Rightarrow> None))
           else None))"

fun negate :: "pyfloat \<Rightarrow> pyfloat" where
  "negate (Fin r) = (if r = 0 then NegZero else Fin (- r))"
| "negate NegZero = Fin 0"
| "negate PosInf = NegInf"
| "negate NegInf = PosInf"
| "negate NaN = NaN"

text \<open>The double for the digits \<open>m\<close> scaled by the power \<open>e\<close> of ten.\<close>

definition decimal_value :: "builtins \<Rightarrow> nat \<Rightarrow> int \<Rightarrow> pyfloat" where
  "decimal_value py m e =
     (if m = 0 then Fin 0
      else nearest_double py
             (if 0 \<le> e then real m * 10 ^ nat e else real m / 10 ^ nat (- e)))"

definition py_float :: "builtins \<Rightarrow> string \<Rightarrow> pyfloat option" where
  "py_float py s =
     (case take_sign (py_strip s) of
        (neg, r) \<Rightarrow>
          (if py_lower r = ''inf'' \<or> py_lower r = ''infinity''
           then Some (if neg then NegInf else PosInf)
           else if py_lower r = ''nan'' then Some NaN
           else (case take_number r of
                   None \<Rightarrow> None
                 | Some (ip, fp, r') \<Rightarrow>
                     (case take_exponent r' of
                        None \<Rightarrow> None
                      | Some e \<Rightarrow>
                          (let x = decimal_value py (digits_value (ip @ fp)) (e - int (length fp))
                           in Some (if neg then negate x else x))))))"

subsection \<open>The operating system\<close>

text \<open>
  What \<open>subprocess.run(cmd, capture_output=True, text=True)\<close> meets: the process
  cannot be started (an \<open>OSError\<close>); it exits with a return code and the text it wrote
  to standard output; it exits, but the bytes it wrote cannot be decoded as text (a
  \<open>UnicodeDecodeError\<close>, which is a \<open>ValueError\<close>, raised before the return code is
  looked at); or it never exits (no timeout is passed).
\<close>

datatype process = Spawn_failed | Exited int string | Undecodable | Never_exits

text \<open>
  The state of the machine at the time of a call. \<open>print_error e\<close> is what
  \<open>print(f"Engine Error: {e}")\<close> does on the standard output of the calling process:
  it returns, or it raises (the output is closed, a pipe is broken, the message cannot
  be encoded), or it waits for ever.
\<close>

record world =
  os_path_exists :: "string \<Rightarrow> bool"
  shutil_which :: "string \<Rightarrow> string option"
  subprocess_run :: "string list \<Rightarrow> process"
  print_error :: "py_exception \<Rightarrow> unit outcome"

text \<open>Truth value of what \<open>shutil.which\<close> returns: \<open>None\<close> and the empty string are false.\<close>

fun truthy :: "string option \<Rightarrow> bool" where
  "truthy None = False"
| "truthy (Some p) = (p \<noteq> [])"

subsection \<open>\<open>run_fsharp_cmd\<close> and the builders\<close>

text \<open>
  \<open>FSHARP_EXEC = os.getenv("FSHARP_EXEC_PATH", ...)\<close> is evaluated once, when the module
  is loaded; the functions below take its value as \<open>exe\<close>.
\<close>

definition FSHARP_EXEC :: "(string \<Rightarrow> string option) \<Rightarrow> string" where
  "FSHARP_EXEC getenv =
     (case getenv ''FSHARP_EXEC_PATH'' of
        Some p \<Rightarrow> p
      | None \<Rightarrow> ''./calculations/bin/Release/net6.0/FinanceCore'')"

text \<open>The command list \<open>cmd\<close> that \<open>run_fsharp_cmd\<close> builds before the \<open>try\<close>.\<close>

definition engine_cmd :: "string \<Rightarrow> world \<Rightarrow> string list \<Rightarrow> string list" where
  "engine_cmd exe w args =
     (if \<not> os_path_exists w exe \<and> truthy (shutil_which w ''dotnet'')
      then [''dotnet'', ''run'', ''--project'', ''./calculations/FinanceCore.fsproj'', ''--''] @ args
      else [exe] @ args)"

text \<open>
  The body of the \<open>try\<close>: \<open>check=True\<close> turns a nonzero return code into
  \<open>CalledProcessError\<close>; the captured output is stripped and given to \<open>float\<close>.
\<close>

definition engine_try :: "builtins \<Rightarrow> world \<Rightarrow> string list \<Rightarrow> pyfloat outcome" where
  "engine_try py w cmd =
     (case subprocess_run w cmd of
        Spawn_failed \<Rightarrow> Raises OSError
      | Undecodable \<Rightarrow> Raises ValueError
      | Never_exits \<Rightarrow> Blocks
      | Exited rc out \<Rightarrow>
          (if rc \<noteq> 0 then Raises (CalledProcessError rc)
           else (case py_float py (py_strip out) of
                   None \<Rightarrow> Raises ValueError
                 | Some v \<Rightarrow> Returns v)))"

text \<open>
  \<open>run_fsharp_cmd\<close>: the command is built, the body of the \<open>try\<close> runs on it, and
  \<open>except Exception\<close> takes every exception of the body: the handler prints it and
  then returns the float \<open>0.0\<close>. An exception that the \<open>print\<close> of the handler raises
  is not caught by anything and reaches the caller.
\<close>

definition run_fsharp_cmd :: "builtins \<Rightarrow> string \<Rightarrow> world \<Rightarrow> string list \<Rightarrow> pyfloat call" where
  "run_fsharp_cmd py exe w args =
     (let cmd = engine_cmd exe w args
      in \<lparr>result =
            (case engine_try py w cmd of
               Raises e \<Rightarrow>
                 (case print_error w e of
                    Returns u \<Rightarrow> Returns (Fin 0)
                  | Raises x \<Rightarrow> Raises x
                  | Blocks \<Rightarrow> Blocks)
             | r \<Rightarrow> r),
          spawned = [cmd]\<rparr>)"

text \<open>
  The builders. The strings of the argument list are computed before
  \<open>run_fsharp_cmd\<close> is called, outside its \<open>try\<close>: an exception of \<open>str\<close> reaches the
  caller and no process is started. In \<open>calculate_bond\<close>, \<open>freq = None\<close> is a call
  that leaves the default \<open>freq=2\<close>.
\<close>

definition calculate_bond ::
  "builtins \<Rightarrow> string \<Rightarrow> world \<Rightarrow> pyval \<Rightarrow> pyval \<Rightarrow> pyval \<Rightarrow> pyval \<Rightarrow> pyval option \<Rightarrow>
   pyfloat call" where
  "calculate_bond py exe w face coupon market years freq =
     (let freq = (case freq of None \<Rightarrow> PyInt 2 | Some f \<Rightarrow> f)
      in case str_each py [face, coupon, market, years, freq] of
           Inl e \<Rightarrow> \<lparr>result = Raises e, spawned = []\<rparr>
         | Inr strs \<Rightarrow> run_fsharp_cmd py exe w (''bond'' # strs))"

definition calculate_wacc ::
  "builtins \<Rightarrow> string \<Rightarrow> world \<Rightarrow> pyval \<Rightarrow> pyval \<Rightarrow> pyval \<Rightarrow> pyval \<Rightarrow> pyval \<Rightarrow>
   pyfloat call" where
  "calculate_wacc py exe w equity debt cost_e cost_d tax =
     (case str_each py [equity, debt, cost_e, cost_d, tax] of
        Inl e \<Rightarrow> \<lparr>result = Raises e, spawned = []\<rparr>
      | Inr strs \<Rightarrow> run_fsharp_cmd py exe w (''wacc'' # strs))"

text \<open>\<open>kind\<close> is passed as it is, without \<open>str\<close>: it is a string.\<close>

definition calculate_option ::
  "builtins \<Rightarrow> string \<Rightarrow> world \<Rightarrow> pyval \<Rightarrow> pyval \<Rightarrow> pyval \<Rightarrow> pyval \<Rightarrow> pyval \<Rightarrow> string \<Rightarrow>
   pyfloat call" where
  "calculate_option py exe w spot strike time rate vol kind =
     (case str_each py [spot, strike, time, rate, vol] of
        Inl e \<Rightarrow> \<lparr>result = Raises e, spawned = []\<rparr>
      | Inr strs \<Rightarrow> run_fsharp_cmd py exe w (''option'' # strs @ [kind]))"

text \<open>\<open>calculate_npv\<close> joins the flows first, then builds the list with \<open>str(rate)\<close>.\<close>

definition calculate_npv ::
  "builtins \<Rightarrow> string \<Rightarrow> world \<Rightarrow> pyval \<Rightarrow> pyval list \<Rightarrow> pyfloat call" where
  "calculate_npv py exe w rate flows =
     (case str_each py flows of
        Inl e \<Rightarrow> \<lparr>result = Raises e, spawned = []\<rparr>
      | Inr strs \<Rightarrow>
          (let flow_str = py_join '','' strs
           in case py_str py rate of
                Inl e \<Rightarrow> \<lparr>result = Raises e, spawned = []\<rparr>
              | Inr r \<Rightarrow> run_fsharp_cmd py exe w [''npv'', r, flow_str]))"

subsection \<open>Sample environments\<close>

text \<open>
  Machines used as concrete inputs below. On \<open>unreachable_world\<close> neither the binary
  nor a \<open>dotnet\<close> runner is present and no process can be started;
  \<open>broken_stdout_world\<close> is the same machine with the standard output of the caller
  closed at the other end, so that printing raises. On \<open>zero_world\<close> and \<open>nan_world\<close>
  the binary is present and the engine prints \<open>0.0\<close>, respectively \<open>nan\<close>, and a
  newline, then exits with status zero. \<open>sample_builtins\<close> is an interpreter with the
  default limit of 4300 digits; its rounding leaves a number as it is, which is right
  for the numbers used below, all of them doubles.
\<close>

definition unreachable_world :: world where
  "unreachable_world =
     \<lparr>os_path_exists = (\<lambda>p. False), shutil_which = (\<lambda>c. None),
      subprocess_run = (\<lambda>cmd. Spawn_failed), print_error = (\<lambda>e. Returns ())\<rparr>"

definition broken_stdout_world :: world where
  "broken_stdout_world =
     \<lparr>os_path_exists = (\<lambda>p. False), shutil_which = (\<lambda>c. None),
      subprocess_run = (\<lambda>cmd. Spawn_failed), print_error = (\<lambda>e. Raises OSError)\<rparr>"

definition zero_world :: world where
  "zero_world =
     \<lparr>os_path_exists = (\<lambda>p. True), shutil_which = (\<lambda>c. None),
      subprocess_run = (\<lambda>cmd. Exited 0 (''0.0'' @ [CHR 0x0A])),
      print_error = (\<lambda>e. Returns ())\<rparr>"

definition nan_world :: world where
  "nan_world =
     \<lparr>os_path_exists = (\<lambda>p. True), shutil_which = (\<lambda>c. None),
      subprocess_run = (\<lambda>cmd. Exited 0 (''nan'' @ [CHR 0x0A])),
      print_error = (\<lambda>e. Returns ())\<rparr>"

text \<open>An integer of 4301 digits, one more than the default limit.\<close>

definition huge_int :: int where
  "huge_int = 10 ^ 4300"

definition sample_builtins :: builtins where
  "sample_builtins =
     \<lparr>nearest_double = Fin,
      str_of_float = (\<lambda>x. if x = NegZero then ''-0.0'' else ''0.0''),
      int_max_str_digits = 4300\<rparr>"

section \<open>The arithmetic evaluator\<close>

text \<open>
  The operands of the evaluator: finite numbers, an integer or a float, the float
  given by the real number it denotes.
\<close>

datatype number = Integral int | Floating real

fun number_value :: "number \<Rightarrow> real" where
  "number_value (Integral i) = real_of_int i"
| "number_value (Floating r) = r"

datatype arithmetic_error = DivisionByZero

text \<open>
  Modelled from the spec: the module \<open>app.operations\<close> with \<open>add\<close>, \<open>subtract\<close>,
  \<open>multiply\<close> and \<open>divide\<close> is imported by the unit tests but is not among the sources.
  The specification says of \<open>divide(a, b)\<close>: it fails with \<open>DivisionByZero\<close> when
  \<open>b == 0\<close> exactly, with no tolerance; otherwise it returns \<open>a / b\<close> as a
  floating-point value, even when both operands are integral. The quotient is the
  exact one; rounding to a double is not modelled.
\<close>

definition divide_py :: "number \<Rightarrow> number \<Rightarrow> arithmetic_error + number" where
  "divide_py a b =
     (if number_value b = 0 then Inl DivisionByZero
      else Inr (Floating (number_value a / number_value b)))"

section \<open>Properties of the schemas\<close>

subsection \<open>Auxiliary facts\<close>

lemma allowed_eq: "allowed = {''addition'', ''subtraction'', ''multiplication'', ''division''}"
  by (auto simp: allowed_def members_def)

lemma enum_of_value_Some: "enum_of_value s = Some e \<longleftrightarrow> enum_value e = s"
  by (cases e) (auto simp: enum_of_value_def members_def)

lemma enum_of_value_allowed: "s \<in> allowed \<Longrightarrow> \<exists>e. enum_of_value s = Some e"
  by (auto simp: allowed_eq enum_of_value_def members_def)

lemma validate_type_Inr:
  "validate_type v = Inr v' \<longleftrightarrow> (\<exists>s. v = PyStr s \<and> py_lower s \<in> allowed \<and> v' = PyStr (py_lower s))"
  by (cases v) auto

lemma validate_type_Inl:
  "validate_type v = Inl e \<longleftrightarrow> (\<not> (\<exists>s. v = PyStr s \<and> py_lower s \<in> allowed) \<and> e = value_error type_message)"
  by (cases v) auto

lemma type_field_ok:
  assumes "py_lower s \<in> allowed"
  shows "\<exists>e. required_field ''type'' validate_type enum_validator (Some (PyStr s)) = Inr e
             \<and> enum_value e = py_lower s"
proof -
  from assms obtain e where e: "enum_of_value (py_lower s) = Some e"
    using enum_of_value_allowed by blast
  then have "enum_value e = py_lower s" by (simp add: enum_of_value_Some)
  with e assms show ?thesis by (simp add: required_field_def)
qed

lemma type_field_bad:
  assumes "\<not> (\<exists>s. v = PyStr s \<and> py_lower s \<in> allowed)"
  shows "required_field ''type'' validate_type enum_validator (Some v)
           = Inl [([''type''], value_error type_message)]"
proof -
  from assms have "validate_type v = Inl (value_error type_message)"
    by (simp add: validate_type_Inl)
  then show ?thesis by (simp add: required_field_def)
qed

lemma inputs_field_list:
  "required_field ''inputs'' check_inputs_is_list (list_validator 2) (Some (PyList xs))
     = (if length xs < 2 then Inl [([''inputs''], too_short)] else Inr xs)"
  by (simp add: required_field_def)

lemma CalculationBase_list:
  assumes "py_lower s \<in> allowed"
  shows "\<exists>e. enum_value e = py_lower s \<and>
     CalculationBase \<lparr>type_arg = Some (PyStr s), inputs_arg = Some (PyList xs)\<rparr>
       = (if length xs < 2 then Inl [([''inputs''], too_short)]
          else (case validate_inputs \<lparr>calc_type = e, inputs = xs\<rparr> of
                  Inl k \<Rightarrow> Inl [([], k)]
                | Inr self \<Rightarrow> Inr self))"
proof -
  from type_field_ok [OF assms] obtain e
    where e: "required_field ''type'' validate_type enum_validator (Some (PyStr s)) = Inr e"
      and v: "enum_value e = py_lower s" by blast
  show ?thesis
    using e v by (intro exI [of _ e]) (simp add: CalculationBase_def inputs_field_list field_errors_def)
qed

lemma enum_value_division: "enum_value e = ''division'' \<longleftrightarrow> e = DIVISION"
  by (cases e) simp_all

lemma check_inputs_is_list_Inl:
  "(\<forall>xs. v \<noteq> PyList xs) \<Longrightarrow> check_inputs_is_list v = Inl (value_error ''Input should be a valid list'')"
  by (cases v) auto

lemma inputs_field_not_list:
  "(\<forall>xs. v \<noteq> PyList xs) \<Longrightarrow>
     required_field ''inputs'' check_inputs_is_list (list_validator 2) (Some v)
       = Inl [([''inputs''], value_error ''Input should be a valid list'')]"
  by (simp add: required_field_def check_inputs_is_list_Inl)

lemma field_errors_loc:
  "(l, k) \<in> set (field_errors (required_field name b i arg)) \<Longrightarrow> l = [name]"
  by (auto simp: field_errors_def required_field_def split: option.splits sum.splits)

lemma CalculationBase_field_failure:
  assumes "required_field ''type'' validate_type enum_validator (type_arg kw) = Inl et
           \<or> required_field ''inputs'' check_inputs_is_list (list_validator 2) (inputs_arg kw) = Inl ei"
  shows "CalculationBase kw =
           Inl (field_errors (required_field ''type'' validate_type enum_validator (type_arg kw))
                @ field_errors (required_field ''inputs'' check_inputs_is_list (list_validator 2)
                                  (inputs_arg kw)))"
  using assms by (auto simp: CalculationBase_def Let_def split: sum.splits)

lemma CalculationBase_Inr:
  assumes "CalculationBase kw = Inr c"
  shows "required_field ''type'' validate_type enum_validator (type_arg kw) = Inr (calc_type c)
       \<and> required_field ''inputs'' check_inputs_is_list (list_validator 2) (inputs_arg kw)
           = Inr (inputs c)
       \<and> validate_inputs c = Inr c"
  using assms
  by (auto simp: CalculationBase_def Let_def validate_inputs_def split: sum.splits if_splits)

lemma type_field_Inr:
  assumes "required_field ''type'' validate_type enum_validator arg = Inr e"
  shows "\<exists>s. arg = Some (PyStr s) \<and> py_lower s \<in> allowed \<and> enum_value e = py_lower s"
proof -
  from assms obtain v v' where v: "arg = Some v" "validate_type v = Inr v'" "enum_validator v' = Inr e"
    by (auto simp: required_field_def split: option.splits sum.splits)
  from v(2) obtain s where s: "v = PyStr s" "py_lower s \<in> allowed" "v' = PyStr (py_lower s)"
    by (auto simp: validate_type_Inr)
  from v(3) s(3) have "enum_of_value (py_lower s) = Some e"
    by (auto split: option.splits)
  then have "enum_value e = py_lower s" by (simp add: enum_of_value_Some)
  with v(1) s show ?thesis by blast
qed

lemma inputs_field_Inr:
  assumes "required_field ''inputs'' check_inputs_is_list (list_validator 2) arg = Inr xs"
  shows "arg = Some (PyList xs) \<and> 2 \<le> length xs"
proof -
  from assms obtain v where v: "arg = Some v"
    by (auto simp: required_field_def split: option.splits)
  show ?thesis
    using assms v by (cases v) (auto simp: required_field_def split: if_splits)
qed

lemma update_type_field:
  assumes "arg = None \<or> arg = Some PyNone \<or> (\<exists>e. arg = Some (PyStr (enum_value e)))"
  shows "\<exists>t. optional_field ''type'' enum_validator arg = Inr t"
proof -
  have "enum_of_value (enum_value e) = Some e" for e
    by (simp add: enum_of_value_Some)
  with assms show ?thesis
    by (auto simp: optional_field_def)
qed

subsection \<open>Membership of the operation type\<close>

text \<open>
  Claim C5. The type rule of \<open>CalculationBase\<close> (its \<open>before\<close> validator followed by the
  conversion to the enumeration) accepts a value if and only if the value is a string
  whose lowercase form is one of \<open>addition\<close>, \<open>subtraction\<close>, \<open>multiplication\<close>,
  \<open>division\<close>. For such a value no error is reported at \<open>type\<close>, whatever the inputs;
  for every other value (another string such as \<open>modulo\<close>, or a value that is not a
  string) the construction fails and the first error listed is the \<open>ValueError\<close> of
  \<open>validate_type\<close> at \<open>type\<close>, the error the specification calls \<open>UnknownOperation\<close>.
\<close>

theorem validate_type_membership:
  "((\<exists>e. required_field ''type'' validate_type enum_validator (Some v) = Inr e)
      \<longleftrightarrow> (\<exists>s. v = PyStr s \<and>
                py_lower s \<in> {''addition'', ''subtraction'', ''multiplication'', ''division''}))
   \<and> ((\<exists>s. v = PyStr s \<and>
             py_lower s \<in> {''addition'', ''subtraction'', ''multiplication'', ''division''})
        \<longrightarrow> (\<forall>k. ([''type''], k) \<notin>
               set (field_errors (CalculationBase \<lparr>type_arg = Some v, inputs_arg = i\<rparr>))))
   \<and> (\<not> (\<exists>s. v = PyStr s \<and>
             py_lower s \<in> {''addition'', ''subtraction'', ''multiplication'', ''division''})
        \<longrightarrow> (\<exists>rest. CalculationBase \<lparr>type_arg = Some v, inputs_arg = i\<rparr>
                      = Inl (([''type''], value_error type_message) # rest)))"
proof (cases "\<exists>s. v = PyStr s \<and> py_lower s \<in> allowed")
  case True
  then obtain s where s: "v = PyStr s" "py_lower s \<in> allowed" by blast
  then obtain e where e: "required_field ''type'' validate_type enum_validator (Some v) = Inr e"
    using type_field_ok by blast
  have "([''type''], k) \<notin> set (field_errors (CalculationBase \<lparr>type_arg = Some v, inputs_arg = i\<rparr>))" for k
    using e
    by (auto simp: CalculationBase_def field_errors_def required_field_def[of "''inputs''"]
             split: sum.splits option.splits)
  with True e show ?thesis unfolding allowed_eq by blast
next
  case False
  then have bad: "required_field ''type'' validate_type enum_validator (Some v)
           = Inl [([''type''], value_error type_message)]"
    by (rule type_field_bad)
  then have "\<exists>rest. CalculationBase \<lparr>type_arg = Some v, inputs_arg = i\<rparr>
                      = Inl (([''type''], value_error type_message) # rest)"
    by (simp add: CalculationBase_def field_errors_def split: sum.splits)
  moreover from bad have "\<not> (\<exists>e. required_field ''type'' validate_type enum_validator (Some v) = Inr e)"
    by simp
  ultimately show ?thesis using False unfolding allowed_eq by blast
qed

theorem validate_type_membership_witness:
  "(\<exists>e. required_field ''type'' validate_type enum_validator (Some (PyStr ''ADDITION'')) = Inr e)
   \<and> (\<exists>rest. CalculationBase \<lparr>type_arg = Some (PyStr ''modulo''),
                               inputs_arg = Some (PyList [Fin 10, Fin 2])\<rparr>
              = Inl (([''type''], value_error type_message) # rest))
   \<and> (\<exists>rest. CalculationBase \<lparr>type_arg = Some (PyInt 7),
                               inputs_arg = Some (PyList [Fin 10, Fin 2])\<rparr>
              = Inl (([''type''], value_error type_message) # rest))"
  using validate_type_membership [of "PyStr ''ADDITION''" None]
        validate_type_membership [of "PyStr ''modulo''" "Some (PyList [Fin 10, Fin 2])"]
        validate_type_membership [of "PyInt 7" "Some (PyList [Fin 10, Fin 2])"]
  by (simp add: py_lower_def lower_char_def)

subsection \<open>The arity rule\<close>

text \<open>
  Claim C6. For every recognized operation type (in any letter case) and every list of
  numbers, the construction of a \<open>CalculationBase\<close> fails when the list has fewer than
  two elements, with the length error of the field \<open>inputs\<close> as the only error: this is
  the error the specification calls \<open>InsufficientOperands\<close>. It is raised by the length
  bound of the field, which is checked before the model validator's own test of the
  length can run. When the list has at least two elements, and the case of a division
  with a zero after the first element is set aside, the construction succeeds with the
  inputs unchanged.
\<close>

theorem arity_rule:
  assumes "py_lower s \<in> allowed"
  shows "(length xs < 2 \<longrightarrow>
            CalculationBase \<lparr>type_arg = Some (PyStr s), inputs_arg = Some (PyList xs)\<rparr>
              = Inl [([''inputs''], too_short)])
       \<and> (2 \<le> length xs \<and> \<not> (py_lower s = ''division'' \<and> (\<exists>x\<in>set (drop 1 xs). eq_zero x)) \<longrightarrow>
            (\<exists>e. enum_value e = py_lower s \<and>
              CalculationBase \<lparr>type_arg = Some (PyStr s), inputs_arg = Some (PyList xs)\<rparr>
                = Inr \<lparr>calc_type = e, inputs = xs\<rparr>))"
proof -
  from CalculationBase_list [OF assms, of xs] obtain e
    where v: "enum_value e = py_lower s"
      and c: "CalculationBase \<lparr>type_arg = Some (PyStr s), inputs_arg = Some (PyList xs)\<rparr>
       = (if length xs < 2 then Inl [([''inputs''], too_short)]
          else (case validate_inputs \<lparr>calc_type = e, inputs = xs\<rparr> of
                  Inl k \<Rightarrow> Inl [([], k)]
                | Inr self \<Rightarrow> Inr self))" by blast
  have d: "e = DIVISION \<longleftrightarrow> py_lower s = ''division''"
    using v enum_value_division [of e] by simp
  show ?thesis
    using c v d by (auto simp: validate_inputs_def list_ex_iff)
qed

theorem arity_rule_witness:
  "CalculationBase \<lparr>type_arg = Some (PyStr ''addition''), inputs_arg = Some (PyList [Fin 1])\<rparr>
     = Inl [([''inputs''], too_short)]
   \<and> (\<exists>e. enum_value e = ''addition'' \<and>
        CalculationBase \<lparr>type_arg = Some (PyStr ''Addition''),
                         inputs_arg = Some (PyList [Fin (21 / 2), Fin 3, Fin 2])\<rparr>
          = Inr \<lparr>calc_type = e, inputs = [Fin (21 / 2), Fin 3, Fin 2]\<rparr>)"
  using arity_rule [of "''addition''" "[Fin 1]"]
        arity_rule [of "''Addition''" "[Fin (21 / 2), Fin 3, Fin 2]"]
  by (simp add: py_lower_def lower_char_def allowed_eq)

subsection \<open>The division rule\<close>

text \<open>
  Claim C7. When the type is \<open>division\<close> (in any letter case), the construction fails
  with the error \<open>Cannot divide by zero\<close>, the \<open>DivisionByZero\<close> of the specification,
  if and only if some input after the first compares equal to zero; the comparison is
  exact. The inputs \<open>[10, 0]\<close> are rejected, \<open>[100, 2]\<close> and \<open>[0, 5]\<close> are accepted. For
  the three other types every list of at least two numbers is accepted, zeros included.
\<close>

theorem division_by_zero_rule:
  "(py_lower s = ''division'' \<longrightarrow>
      ((CalculationBase \<lparr>type_arg = Some (PyStr s), inputs_arg = Some (PyList xs)\<rparr>
          = Inl [([], value_error ''Cannot divide by zero'')])
         \<longleftrightarrow> (\<exists>x\<in>set (drop 1 xs). eq_zero x))
    \<and> ((([], value_error ''Cannot divide by zero'') \<in>
          set (field_errors
                (CalculationBase \<lparr>type_arg = Some (PyStr s), inputs_arg = Some (PyList xs)\<rparr>)))
         \<longleftrightarrow> (\<exists>x\<in>set (drop 1 xs). eq_zero x)))
   \<and> (py_lower s \<in> allowed \<and> py_lower s \<noteq> ''division'' \<and> 2 \<le> length xs \<longrightarrow>
        (\<exists>e. enum_value e = py_lower s \<and>
           CalculationBase \<lparr>type_arg = Some (PyStr s), inputs_arg = Some (PyList xs)\<rparr>
             = Inr \<lparr>calc_type = e, inputs = xs\<rparr>))
   \<and> CalculationBase \<lparr>type_arg = Some (PyStr ''division''),
                       inputs_arg = Some (PyList [Fin 10, Fin 0])\<rparr>
        = Inl [([], value_error ''Cannot divide by zero'')]
   \<and> CalculationBase \<lparr>type_arg = Some (PyStr ''division''),
                       inputs_arg = Some (PyList [Fin 100, Fin 2])\<rparr>
        = Inr \<lparr>calc_type = DIVISION, inputs = [Fin 100, Fin 2]\<rparr>
   \<and> CalculationBase \<lparr>type_arg = Some (PyStr ''division''),
                       inputs_arg = Some (PyList [Fin 0, Fin 5])\<rparr>
        = Inr \<lparr>calc_type = DIVISION, inputs = [Fin 0, Fin 5]\<rparr>"
proof -
  have div: "((CalculationBase \<lparr>type_arg = Some (PyStr s), inputs_arg = Some (PyList xs)\<rparr>
          = Inl [([], value_error ''Cannot divide by zero'')])
         \<longleftrightarrow> (\<exists>x\<in>set (drop 1 xs). eq_zero x))
    \<and> ((([], value_error ''Cannot divide by zero'') \<in>
          set (field_errors
                (CalculationBase \<lparr>type_arg = Some (PyStr s), inputs_arg = Some (PyList xs)\<rparr>)))
         \<longleftrightarrow> (\<exists>x\<in>set (drop 1 xs). eq_zero x))"
    if s: "py_lower s = ''division''"
  proof -
    have a: "py_lower s \<in> allowed" using s by (simp add: allowed_eq)
    from CalculationBase_list [OF a, of xs] obtain e
      where v: "enum_value e = py_lower s"
        and c: "CalculationBase \<lparr>type_arg = Some (PyStr s), inputs_arg = Some (PyList xs)\<rparr>
         = (if length xs < 2 then Inl [([''inputs''], too_short)]
            else (case validate_inputs \<lparr>calc_type = e, inputs = xs\<rparr> of
                    Inl k \<Rightarrow> Inl [([], k)]
                  | Inr self \<Rightarrow> Inr self))" by blast
    have e: "e = DIVISION" using v s by (simp add: enum_value_division)
    have short: "\<not> (\<exists>x\<in>set (drop 1 xs). eq_zero x)" if "length xs < 2"
      using that by (cases xs) auto
    show ?thesis
    proof (cases "length xs < 2")
      case True
      with c short show ?thesis by (simp add: field_errors_def)
    next
      case False
      with c e show ?thesis
        by (simp add: validate_inputs_def list_ex_iff field_errors_def)
    qed
  qed
  have other: "\<exists>e. enum_value e = py_lower s \<and>
           CalculationBase \<lparr>type_arg = Some (PyStr s), inputs_arg = Some (PyList xs)\<rparr>
             = Inr \<lparr>calc_type = e, inputs = xs\<rparr>"
    if "py_lower s \<in> allowed" "py_lower s \<noteq> ''division''" "2 \<le> length xs"
  proof -
    from CalculationBase_list [OF that(1), of xs] obtain e
      where v: "enum_value e = py_lower s"
        and c: "CalculationBase \<lparr>type_arg = Some (PyStr s), inputs_arg = Some (PyList xs)\<rparr>
         = (if length xs < 2 then Inl [([''inputs''], too_short)]
            else (case validate_inputs \<lparr>calc_type = e, inputs = xs\<rparr> of
                    Inl k \<Rightarrow> Inl [([], k)]
                  | Inr self \<Rightarrow> Inr self))" by blast
    have "e \<noteq> DIVISION" using v that(2) by auto
    with c v that(3) show ?thesis by (auto simp: validate_inputs_def)
  qed
  have ex1: "CalculationBase \<lparr>type_arg = Some (PyStr ''division''),
                       inputs_arg = Some (PyList [Fin 10, Fin 0])\<rparr>
        = Inl [([], value_error ''Cannot divide by zero'')]"
    by (simp add: CalculationBase_def required_field_def validate_inputs_def py_lower_def
                  lower_char_def allowed_eq enum_of_value_def members_def)
  have ex2: "CalculationBase \<lparr>type_arg = Some (PyStr ''division''),
                       inputs_arg = Some (PyList [Fin 100, Fin 2])\<rparr>
        = Inr \<lparr>calc_type = DIVISION, inputs = [Fin 100, Fin 2]\<rparr>"
    by (simp add: CalculationBase_def required_field_def validate_inputs_def py_lower_def
                  lower_char_def allowed_eq enum_of_value_def members_def)
  have ex3: "CalculationBase \<lparr>type_arg = Some (PyStr ''division''),
                       inputs_arg = Some (PyList [Fin 0, Fin 5])\<rparr>
        = Inr \<lparr>calc_type = DIVISION, inputs = [Fin 0, Fin 5]\<rparr>"
    by (simp add: CalculationBase_def required_field_def validate_inputs_def py_lower_def
                  lower_char_def allowed_eq enum_of_value_def members_def)
  from div other ex1 ex2 ex3 show ?thesis by blast
qed

theorem division_by_zero_rule_witness:
  "(CalculationBase \<lparr>type_arg = Some (PyStr ''DIVISION''),
                      inputs_arg = Some (PyList [Fin 8, Fin 2, Fin 0])\<rparr>
      = Inl [([], value_error ''Cannot divide by zero'')])
   \<and> (CalculationBase \<lparr>type_arg = Some (PyStr ''DIVISION''),
                      inputs_arg = Some (PyList [Fin 1, Fin (1 / 10 ^ 300)])\<rparr>
      \<noteq> Inl [([], value_error ''Cannot divide by zero'')])
   \<and> (\<exists>e. enum_value e = ''multiplication'' \<and>
         CalculationBase \<lparr>type_arg = Some (PyStr ''multiplication''),
                          inputs_arg = Some (PyList [Fin 0, Fin 0])\<rparr>
           = Inr \<lparr>calc_type = e, inputs = [Fin 0, Fin 0]\<rparr>)"
  using division_by_zero_rule [of "''DIVISION''" "[Fin 8, Fin 2, Fin 0]"]
        division_by_zero_rule [of "''DIVISION''" "[Fin 1, Fin (1 / 10 ^ 300)]"]
        division_by_zero_rule [of "''multiplication''" "[Fin 0, Fin 0]"]
  by (simp add: py_lower_def lower_char_def allowed_eq)

subsection \<open>The order of the rules\<close>

text \<open>
  Claim C8, as stated: the first failing rule alone determines the reported error. This
  fails for the payload \<open>type="modulo"\<close>, \<open>inputs=[1]\<close>, which breaks the membership rule
  and the arity rule: both errors are reported, the membership error first.
\<close>

theorem first_failure_counterexample:
  "CalculationBase \<lparr>type_arg = Some (PyStr ''modulo''), inputs_arg = Some (PyList [Fin 1])\<rparr>
     = Inl [([''type''], value_error type_message), ([''inputs''], too_short)]
   \<and> CalculationBase \<lparr>type_arg = Some (PyStr ''modulo''), inputs_arg = Some (PyList [Fin 1])\<rparr>
     \<noteq> Inl [([''type''], value_error type_message)]"
  by (simp add: CalculationBase_def required_field_def field_errors_def py_lower_def
                lower_char_def allowed_eq)

text \<open>
  Claim C8, amended. The rules of the two fields are evaluated field by field, \<open>type\<close>
  before \<open>inputs\<close>, and the failures of both fields are reported together:
  \<^item> when the membership rule fails, its error is listed first, and only errors of the
    field \<open>inputs\<close> can follow it;
  \<^item> when the shape rule fails (the inputs are not a list), its error is reported, and
    neither the arity error nor any error of the model validator is;
  \<^item> when the arity rule fails, its error is reported and no error of the model
    validator is: the semantic rule is evaluated only when every rule of the fields has
    passed;
  \<^item> a construction that succeeds has passed all four rules.
\<close>

theorem rule_order:
  fixes kw :: kwargs
  shows
  "(\<forall>v. type_arg kw = Some v \<and> \<not> (\<exists>s. v = PyStr s \<and> py_lower s \<in> allowed) \<longrightarrow>
       (\<exists>rest. CalculationBase kw = Inl (([''type''], value_error type_message) # rest)
               \<and> (\<forall>l k. (l, k) \<in> set rest \<longrightarrow> l = [''inputs''])))
   \<and> (\<forall>v. inputs_arg kw = Some v \<and> (\<forall>xs. v \<noteq> PyList xs) \<longrightarrow>
         ([''inputs''], value_error ''Input should be a valid list'')
            \<in> set (field_errors (CalculationBase kw))
         \<and> ([''inputs''], too_short) \<notin> set (field_errors (CalculationBase kw))
         \<and> (\<forall>k. ([], k) \<notin> set (field_errors (CalculationBase kw))))
   \<and> (\<forall>xs. inputs_arg kw = Some (PyList xs) \<and> length xs < 2 \<longrightarrow>
         ([''inputs''], too_short) \<in> set (field_errors (CalculationBase kw))
         \<and> (\<forall>k. ([], k) \<notin> set (field_errors (CalculationBase kw))))
   \<and> (\<forall>c. CalculationBase kw = Inr c \<longrightarrow>
         (\<exists>s. type_arg kw = Some (PyStr s) \<and> py_lower s \<in> allowed
               \<and> enum_value (calc_type c) = py_lower s)
         \<and> inputs_arg kw = Some (PyList (inputs c))
         \<and> 2 \<le> length (inputs c)
         \<and> \<not> (calc_type c = DIVISION \<and> (\<exists>x\<in>set (drop 1 (inputs c)). eq_zero x)))"
proof -
  let ?t = "required_field ''type'' validate_type enum_validator (type_arg kw)"
  let ?i = "required_field ''inputs'' check_inputs_is_list (list_validator 2) (inputs_arg kw)"
  let ?errs = "field_errors (CalculationBase kw)"
  have loc_t: "l = [''type'']" if "(l, k) \<in> set (field_errors ?t)" for l k
    using that by (rule field_errors_loc)
  have loc_i: "l = [''inputs'']" if "(l, k) \<in> set (field_errors ?i)" for l k
    using that by (rule field_errors_loc)
  have membership: "\<exists>rest. CalculationBase kw = Inl (([''type''], value_error type_message) # rest)
               \<and> (\<forall>l k. (l, k) \<in> set rest \<longrightarrow> l = [''inputs''])"
    if a: "type_arg kw = Some v \<and> \<not> (\<exists>s. v = PyStr s \<and> py_lower s \<in> allowed)" for v
  proof -
    from a have t: "?t = Inl [([''type''], value_error type_message)]"
      using type_field_bad by simp
    have "CalculationBase kw = Inl (([''type''], value_error type_message) # field_errors ?i)"
      using CalculationBase_field_failure [of kw, OF disjI1, OF t] t
      by (simp add: field_errors_def)
    with loc_i show ?thesis by blast
  qed
  have shape: "([''inputs''], value_error ''Input should be a valid list'') \<in> set ?errs
         \<and> ([''inputs''], too_short) \<notin> set ?errs
         \<and> (\<forall>k. ([], k) \<notin> set ?errs)"
    if a: "inputs_arg kw = Some v \<and> (\<forall>xs. v \<noteq> PyList xs)" for v
  proof -
    from a have i: "?i = Inl [([''inputs''], value_error ''Input should be a valid list'')]"
      using inputs_field_not_list by simp
    have c: "?errs = field_errors ?t @ [([''inputs''], value_error ''Input should be a valid list'')]"
      using CalculationBase_field_failure [of kw, OF disjI2, OF i] i
      by (simp add: field_errors_def)
    have "([''inputs''], too_short) \<notin> set (field_errors ?t)" and "([], k) \<notin> set (field_errors ?t)" for k
      using loc_t by blast+
    with c show ?thesis by simp
  qed
  have arity: "([''inputs''], too_short) \<in> set ?errs \<and> (\<forall>k. ([], k) \<notin> set ?errs)"
    if a: "inputs_arg kw = Some (PyList xs) \<and> length xs < 2" for xs
  proof -
    from a have i: "?i = Inl [([''inputs''], too_short)]"
      by (simp add: inputs_field_list)
    have c: "?errs = field_errors ?t @ [([''inputs''], too_short)]"
      using CalculationBase_field_failure [of kw, OF disjI2, OF i] i
      by (simp add: field_errors_def)
    have "([], k) \<notin> set (field_errors ?t)" for k
      using loc_t by blast
    with c show ?thesis by simp
  qed
  have success: "(\<exists>s. type_arg kw = Some (PyStr s) \<and> py_lower s \<in> allowed
               \<and> enum_value (calc_type c) = py_lower s)
         \<and> inputs_arg kw = Some (PyList (inputs c))
         \<and> 2 \<le> length (inputs c)
         \<and> \<not> (calc_type c = DIVISION \<and> (\<exists>x\<in>set (drop 1 (inputs c)). eq_zero x))"
    if a: "CalculationBase kw = Inr c" for c
  proof -
    note r = CalculationBase_Inr [OF a]
    from r type_field_Inr [of "type_arg kw" "calc_type c"]
    have 1: "\<exists>s. type_arg kw = Some (PyStr s) \<and> py_lower s \<in> allowed
               \<and> enum_value (calc_type c) = py_lower s" by blast
    from r inputs_field_Inr [of "inputs_arg kw" "inputs c"]
    have 2: "inputs_arg kw = Some (PyList (inputs c))" and 3: "2 \<le> length (inputs c)" by blast+
    from r have 4: "\<not> (calc_type c = DIVISION \<and> (\<exists>x\<in>set (drop 1 (inputs c)). eq_zero x))"
      by (auto simp: validate_inputs_def list_ex_iff split: if_splits)
    from 1 2 3 4 show ?thesis by blast
  qed
  from membership shape arity success show ?thesis by blast
qed

theorem rule_order_witness:
  "(\<exists>rest. CalculationBase \<lparr>type_arg = Some (PyStr ''modulo''), inputs_arg = Some (PyList [Fin 1])\<rparr>
              = Inl (([''type''], value_error type_message) # rest)
            \<and> (\<forall>l k. (l, k) \<in> set rest \<longrightarrow> l = [''inputs'']))
   \<and> ([''inputs''], value_error ''Input should be a valid list'')
        \<in> set (field_errors (CalculationBase \<lparr>type_arg = Some (PyStr ''division''),
                                                inputs_arg = Some (PyInt 3)\<rparr>))
   \<and> ([''inputs''], too_short)
        \<in> set (field_errors (CalculationBase \<lparr>type_arg = Some (PyStr ''modulo''),
                                                inputs_arg = Some (PyList [Fin 1])\<rparr>))
   \<and> CalculationBase \<lparr>type_arg = Some (PyStr ''division''),
                       inputs_arg = Some (PyList [Fin 100, Fin 2])\<rparr>
        = Inr \<lparr>calc_type = DIVISION, inputs = [Fin 100, Fin 2]\<rparr>
   \<and> 2 \<le> length (inputs \<lparr>calc_type = DIVISION, inputs = [Fin 100, Fin 2]\<rparr>)"
proof -
  have ok: "CalculationBase \<lparr>type_arg = Some (PyStr ''division''),
                       inputs_arg = Some (PyList [Fin 100, Fin 2])\<rparr>
        = Inr \<lparr>calc_type = DIVISION, inputs = [Fin 100, Fin 2]\<rparr>"
    by (simp add: CalculationBase_def required_field_def validate_inputs_def py_lower_def
                  lower_char_def allowed_eq enum_of_value_def members_def)
  show ?thesis
    using rule_order [of "\<lparr>type_arg = Some (PyStr ''modulo''), inputs_arg = Some (PyList [Fin 1])\<rparr>"]
          rule_order [of "\<lparr>type_arg = Some (PyStr ''division''), inputs_arg = Some (PyInt 3)\<rparr>"]
          rule_order [of "\<lparr>type_arg = Some (PyStr ''division''),
                           inputs_arg = Some (PyList [Fin 100, Fin 2])\<rparr>"]
          ok
    by (simp add: py_lower_def lower_char_def allowed_eq)
qed

subsection \<open>The update schema\<close>

text \<open>
  Claim C10. \<open>CalculationUpdate\<close> has no division rule. With a type that is absent,
  \<open>None\<close> or the value of a member of the enumeration, every list of at least two
  numbers is accepted, also for \<open>division\<close> with a zero after the first element
  (\<open>[10, 0]\<close> validates); a list of fewer than two numbers is rejected with the length
  error of the field \<open>inputs\<close>, the only check made on the inputs.
\<close>

theorem update_skips_division_rule:
  fixes kw :: kwargs
  assumes "type_arg kw = None \<or> type_arg kw = Some PyNone
           \<or> (\<exists>e. type_arg kw = Some (PyStr (enum_value e)))"
      and "inputs_arg kw = Some (PyList xs)"
  shows "(2 \<le> length xs \<longrightarrow>
            (\<exists>t. CalculationUpdate kw = Inr \<lparr>upd_type = t, upd_inputs = Some xs\<rparr>))
       \<and> (length xs < 2 \<longrightarrow> CalculationUpdate kw = Inl [([''inputs''], too_short)])
       \<and> CalculationUpdate \<lparr>type_arg = Some (PyStr ''division''),
                            inputs_arg = Some (PyList [Fin 10, Fin 0])\<rparr>
           = Inr \<lparr>upd_type = Some DIVISION, upd_inputs = Some [Fin 10, Fin 0]\<rparr>"
proof -
  from update_type_field [OF assms(1)] obtain t
    where t: "optional_field ''type'' enum_validator (type_arg kw) = Inr t" by blast
  have i: "optional_field ''inputs'' (list_validator 2) (inputs_arg kw)
             = (if length xs < 2 then Inl [([''inputs''], too_short)] else Inr (Some xs))"
    using assms(2) by (simp add: optional_field_def)
  have "2 \<le> length xs \<Longrightarrow> CalculationUpdate kw = Inr \<lparr>upd_type = t, upd_inputs = Some xs\<rparr>"
    using t i by (simp add: CalculationUpdate_def update_validate_inputs_def)
  moreover have "length xs < 2 \<Longrightarrow> CalculationUpdate kw = Inl [([''inputs''], too_short)]"
    using t i by (simp add: CalculationUpdate_def field_errors_def)
  moreover have "CalculationUpdate \<lparr>type_arg = Some (PyStr ''division''),
                            inputs_arg = Some (PyList [Fin 10, Fin 0])\<rparr>
           = Inr \<lparr>upd_type = Some DIVISION, upd_inputs = Some [Fin 10, Fin 0]\<rparr>"
    by (simp add: CalculationUpdate_def optional_field_def update_validate_inputs_def
                  enum_of_value_def members_def)
  ultimately show ?thesis by blast
qed

theorem update_skips_division_rule_witness:
  "(\<exists>t. CalculationUpdate \<lparr>type_arg = Some (PyStr ''division''),
                            inputs_arg = Some (PyList [Fin 7, Fin 0, Fin 0])\<rparr>
          = Inr \<lparr>upd_type = t, upd_inputs = Some [Fin 7, Fin 0, Fin 0]\<rparr>)
   \<and> CalculationUpdate \<lparr>type_arg = None, inputs_arg = Some (PyList [Fin 1])\<rparr>
       = Inl [([''inputs''], too_short)]"
proof -
  let ?kw = "\<lparr>type_arg = Some (PyStr ''division''),
              inputs_arg = Some (PyList [Fin 7, Fin 0, Fin 0])\<rparr>"
  let ?kw' = "\<lparr>type_arg = None, inputs_arg = Some (PyList [Fin 1])\<rparr>"
  have "type_arg ?kw = Some (PyStr (enum_value DIVISION))" by simp
  then have t: "type_arg ?kw = None \<or> type_arg ?kw = Some PyNone
                \<or> (\<exists>e. type_arg ?kw = Some (PyStr (enum_value e)))" by blast
  have i: "inputs_arg ?kw = Some (PyList [Fin 7, Fin 0, Fin 0])" by simp
  have t': "type_arg ?kw' = None \<or> type_arg ?kw' = Some PyNone
                \<or> (\<exists>e. type_arg ?kw' = Some (PyStr (enum_value e)))" by simp
  have i': "inputs_arg ?kw' = Some (PyList [Fin 1])" by simp
  from update_skips_division_rule [OF t i] update_skips_division_rule [OF t' i']
  show ?thesis by simp
qed

section \<open>Properties of the engine invoker\<close>

subsection \<open>Auxiliary facts\<close>

lemma run_spawned: "spawned (run_fsharp_cmd py exe w args) = [engine_cmd exe w args]"
  by (simp add: run_fsharp_cmd_def Let_def)

lemma run_result_Returns:
  "engine_try py w (engine_cmd exe w args) = Returns v \<Longrightarrow>
     result (run_fsharp_cmd py exe w args) = Returns v"
  by (simp add: run_fsharp_cmd_def Let_def)

lemma run_result_Raises:
  "engine_try py w (engine_cmd exe w args) = Raises e \<Longrightarrow> print_error w e = Returns u \<Longrightarrow>
     result (run_fsharp_cmd py exe w args) = Returns (Fin 0)"
  by (simp add: run_fsharp_cmd_def Let_def)

lemma engine_cmd_absent:
  "\<not> os_path_exists w exe \<Longrightarrow> \<not> truthy (shutil_which w ''dotnet'') \<Longrightarrow>
     engine_cmd exe w args = exe # args"
  by (simp add: engine_cmd_def)

lemma dropWhile_token:
  assumes "tok \<noteq> []" "\<not> P (hd tok)"
  shows "dropWhile P (tok @ ys) = tok @ ys"
  using assms by (cases tok) simp_all

lemma py_strip_token:
  assumes lead: "list_all py_isspace lead" and trail: "list_all py_isspace trail"
      and tok: "tok \<noteq> []" "\<not> py_isspace (hd tok)" "\<not> py_isspace (last tok)"
  shows "py_strip (lead @ tok @ trail) = tok"
proof -
  have "dropWhile py_isspace (lead @ tok @ trail) = dropWhile py_isspace (tok @ trail)"
    using lead by (simp add: list_all_iff dropWhile_append2)
  also have "\<dots> = tok @ trail"
    using tok(1,2) by (rule dropWhile_token)
  finally have front: "dropWhile py_isspace (lead @ tok @ trail) = tok @ trail" .
  have "py_isspace x" if "x \<in> set (rev trail)" for x
    using that trail by (simp add: list_all_iff)
  then have "dropWhile py_isspace (rev trail @ rev tok) = dropWhile py_isspace (rev tok)"
    by (rule dropWhile_append2)
  then have "dropWhile py_isspace (rev (tok @ trail)) = dropWhile py_isspace (rev tok)"
    by (simp only: rev_append)
  also have "\<dots> = rev tok"
    using dropWhile_token [of "rev tok" py_isspace "[]"] tok(1,3) by (simp add: hd_rev)
  finally show ?thesis
    using front by (simp add: py_strip_def)
qed

lemma py_strip_decompose:
  "\<exists>l r. out = l @ py_strip out @ r \<and> list_all py_isspace l \<and> list_all py_isspace r"
proof -
  let ?d = "dropWhile py_isspace out"
  let ?l = "takeWhile py_isspace out"
  let ?r = "rev (takeWhile py_isspace (rev ?d))"
  have "py_strip out @ ?r
          = rev (takeWhile py_isspace (rev ?d) @ dropWhile py_isspace (rev ?d))"
    by (simp only: py_strip_def rev_append)
  also have "\<dots> = rev (rev ?d)"
    by (simp only: takeWhile_dropWhile_id)
  finally have d: "?d = py_strip out @ ?r"
    by (simp only: rev_rev_ident)
  have "out = ?l @ ?d" by simp
  with d have "out = ?l @ py_strip out @ ?r" by simp
  moreover have "list_all py_isspace ?l"
    by (simp add: list_all_iff) (meson set_takeWhileD)
  moreover have "list_all py_isspace ?r"
    by (simp add: list_all_iff) (meson set_takeWhileD)
  ultimately show ?thesis by blast
qed

lemma py_float_token:
  assumes "list_all py_isspace lead" "list_all py_isspace trail"
      and "tok \<noteq> []" "\<not> py_isspace (hd tok)" "\<not> py_isspace (last tok)"
  shows "py_float py (py_strip (lead @ tok @ trail)) = py_float py tok"
proof -
  have "py_strip (lead @ tok @ trail) = tok"
    using assms by (rule py_strip_token)
  moreover have "py_strip tok = tok"
    using py_strip_token [of "[]" "[]" tok] assms(3-5) by simp
  ultimately show ?thesis by (simp add: py_float_def)
qed

lemma str_int_within:
  assumes "\<bar>i\<bar> < 10 ^ k" "k \<le> int_max_str_digits py"
  shows "str_int py i = Inr (if i < 0 then CHR ''-'' # str_nat (nat (- i)) else str_nat (nat i))"
proof -
  have "(10::int) ^ k \<le> 10 ^ int_max_str_digits py"
    using assms(2) by (intro power_increasing) simp_all
  with assms(1) have "\<not> 10 ^ int_max_str_digits py \<le> \<bar>i\<bar>" by linarith
  then show ?thesis by (simp add: str_int_def)
qed

lemma str_int_unlimited:
  assumes "int_max_str_digits py = 0"
  shows "str_int py i = Inr (if i < 0 then CHR ''-'' # str_nat (nat (- i)) else str_nat (nat i))"
  using assms by (simp add: str_int_def)

lemma str_int_2: "str_int py 2 = Inr ''2''"
proof (cases "int_max_str_digits py = 0")
  case True
  then show ?thesis by (simp add: str_int_unlimited digit_char_def)
next
  case False
  then have "1 \<le> int_max_str_digits py" by simp
  moreover have "\<bar>2::int\<bar> < 10 ^ 1" by simp
  ultimately have "str_int py 2 = Inr (if (2::int) < 0 then CHR ''-'' # str_nat (nat (- 2)) else str_nat (nat 2))"
    by (rule str_int_within [rotated])
  then show ?thesis by (simp add: digit_char_def)
qed

lemma str_int_huge: "str_int sample_builtins huge_int = Inl ValueError"
proof -
  have "(10::int) ^ 4300 \<le> \<bar>10 ^ 4300\<bar>" by (rule abs_ge_self)
  then have "10 ^ int_max_str_digits sample_builtins \<le> \<bar>huge_int\<bar>"
    by (simp only: huge_int_def sample_builtins_def builtins.simps)
  moreover have "int_max_str_digits sample_builtins \<noteq> 0"
    by (simp add: sample_builtins_def)
  ultimately show ?thesis by (simp only: str_int_def simp_thms if_True)
qed

lemma str_each_list_all2:
  "str_each py vs = Inr ss \<longleftrightarrow> list_all2 (\<lambda>v s. py_str py v = Inr s) vs ss"
proof (induction vs arbitrary: ss)
  case Nil
  then show ?case by auto
next
  case (Cons v vs)
  show ?case
  proof (cases ss)
    case Nil
    then show ?thesis by (simp split: sum.splits)
  next
    case (Cons s ss')
    with Cons.IH [of ss'] show ?thesis by (auto split: sum.splits)
  qed
qed

lemmas py_float_eval =
  py_float_def py_strip_def py_isspace_def whitespace_def py_lower_def lower_char_def
  take_number_def take_exponent_def is_digit_def digits_value_def digit_value_def
  decimal_value_def

subsection \<open>Failure of the engine\<close>

text \<open>
  Claim C1, as stated: after a failure the invoker returns a result that carries
  \<open>succeeded=false\<close> together with the value \<open>0.0\<close>, and raises nothing. Both parts
  fail. When the process cannot be started and the standard output of the caller is
  broken, the \<open>print\<close> of the handler raises and its exception reaches the caller.
  And \<open>run_fsharp_cmd\<close> returns a bare float, with no flag: on the machine where
  neither the binary nor a runner is present, it returns the very value it returns on
  the machine where the engine ran, printed \<open>0.0\<close> and exited with status zero.
\<close>

theorem failure_counterexample:
  "result (run_fsharp_cmd sample_builtins (FSHARP_EXEC Map.empty) broken_stdout_world
             [''npv'', ''0'', ''-100,100''])
     = Raises OSError
   \<and> subprocess_run unreachable_world
       (engine_cmd (FSHARP_EXEC Map.empty) unreachable_world [''npv'', ''0'', ''-100,100''])
     = Spawn_failed
   \<and> subprocess_run zero_world
       (engine_cmd (FSHARP_EXEC Map.empty) zero_world [''npv'', ''0'', ''-100,100''])
     = Exited 0 (''0.0'' @ [CHR 0x0A])
   \<and> result (run_fsharp_cmd sample_builtins (FSHARP_EXEC Map.empty) unreachable_world
                [''npv'', ''0'', ''-100,100''])
     = result (run_fsharp_cmd sample_builtins (FSHARP_EXEC Map.empty) zero_world
                [''npv'', ''0'', ''-100,100''])"
  by (simp add: run_fsharp_cmd_def engine_try_def Let_def unreachable_world_def zero_world_def
                broken_stdout_world_def py_float_def py_strip_def py_isspace_def whitespace_def
                py_lower_def lower_char_def take_number_def take_exponent_def is_digit_def
                digits_value_def digit_value_def decimal_value_def)

text \<open>
  Claim C1, amended. For every argument vector, when the process cannot be started or
  exits with a nonzero status, and the \<open>print\<close> of the handler completes,
  \<open>run_fsharp_cmd\<close> returns the float \<open>0.0\<close>, and nothing else. This covers the
  machine on which the binary is absent and no runner is found, where the command is
  the binary path and starting it fails.
\<close>

theorem failure_sentinel:
  "(subprocess_run w (engine_cmd exe w args) = Spawn_failed
      \<and> print_error w OSError = Returns () \<longrightarrow>
      result (run_fsharp_cmd py exe w args) = Returns (Fin 0))
   \<and> (subprocess_run w (engine_cmd exe w args) = Exited rc out \<and> rc \<noteq> 0
      \<and> print_error w (CalledProcessError rc) = Returns () \<longrightarrow>
      result (run_fsharp_cmd py exe w args) = Returns (Fin 0))
   \<and> (\<not> os_path_exists w exe \<and> \<not> truthy (shutil_which w ''dotnet'')
      \<and> subprocess_run w (exe # args) = Spawn_failed
      \<and> print_error w OSError = Returns () \<longrightarrow>
      result (run_fsharp_cmd py exe w args) = Returns (Fin 0))"
proof -
  have spawn: "result (run_fsharp_cmd py exe w args) = Returns (Fin 0)"
    if "subprocess_run w (engine_cmd exe w args) = Spawn_failed" "print_error w OSError = Returns ()"
  proof -
    have "engine_try py w (engine_cmd exe w args) = Raises OSError"
      using that(1) by (simp add: engine_try_def)
    then show ?thesis using that(2) by (rule run_result_Raises)
  qed
  have status: "result (run_fsharp_cmd py exe w args) = Returns (Fin 0)"
    if "subprocess_run w (engine_cmd exe w args) = Exited rc out" "rc \<noteq> 0"
       "print_error w (CalledProcessError rc) = Returns ()"
  proof -
    have "engine_try py w (engine_cmd exe w args) = Raises (CalledProcessError rc)"
      using that(1,2) by (simp add: engine_try_def)
    then show ?thesis using that(3) by (rule run_result_Raises)
  qed
  have absent: "result (run_fsharp_cmd py exe w args) = Returns (Fin 0)"
    if "\<not> os_path_exists w exe" "\<not> truthy (shutil_which w ''dotnet'')"
       "subprocess_run w (exe # args) = Spawn_failed" "print_error w OSError = Returns ()"
  proof -
    have "engine_cmd exe w args = exe # args"
      using that(1,2) by (rule engine_cmd_absent)
    with that(3,4) spawn show ?thesis by simp
  qed
  from spawn status absent show ?thesis by blast
qed

theorem failure_sentinel_witness:
  "result (run_fsharp_cmd sample_builtins (FSHARP_EXEC Map.empty) unreachable_world
             [''bond'', ''1000''])
     = Returns (Fin 0)
   \<and> result (run_fsharp_cmd sample_builtins ''engine''
        \<lparr>os_path_exists = (\<lambda>p. True), shutil_which = (\<lambda>c. None),
         subprocess_run = (\<lambda>cmd. Exited 2 ''usage''),
         print_error = (\<lambda>e. Returns ())\<rparr> [''wacc''])
     = Returns (Fin 0)"
  using failure_sentinel [where w = unreachable_world and exe = "FSHARP_EXEC Map.empty"
                             and args = "[''bond'', ''1000'']" and py = sample_builtins]
        failure_sentinel [where w = "\<lparr>os_path_exists = (\<lambda>p. True), shutil_which = (\<lambda>c. None),
                                      subprocess_run = (\<lambda>cmd. Exited 2 ''usage''),
                                      print_error = (\<lambda>e. Returns ())\<rparr>"
                             and exe = "''engine''" and args = "[''wacc'']" and rc = 2
                             and out = "''usage''" and py = sample_builtins]
  by (simp add: unreachable_world_def)

subsection \<open>Choice of the command\<close>

text \<open>
  Claim C2. The command is computed at each call from the machine as it is at that
  call: the path of the binary followed by the arguments when the binary exists; the
  \<open>dotnet run\<close> prefix followed by the arguments when it does not exist and a \<open>dotnet\<close>
  runner is found; and the path of the binary again when neither is there, in which
  case the failure shows when the process is started, inside the \<open>try\<close>.
  \<open>run_fsharp_cmd\<close> gives this command, and no other, to \<open>subprocess.run\<close>, and its
  result is that of the \<open>try\<close> body on this command, followed by the handler.
\<close>

theorem command_choice:
  "(os_path_exists w exe \<longrightarrow> engine_cmd exe w args = exe # args)
   \<and> (\<not> os_path_exists w exe \<and> truthy (shutil_which w ''dotnet'') \<longrightarrow>
        engine_cmd exe w args =
          [''dotnet'', ''run'', ''--project'', ''./calculations/FinanceCore.fsproj'', ''--''] @ args)
   \<and> (\<not> os_path_exists w exe \<and> \<not> truthy (shutil_which w ''dotnet'') \<longrightarrow>
        engine_cmd exe w args = exe # args
        \<and> (subprocess_run w (exe # args) = Spawn_failed \<longrightarrow>
             engine_try py w (engine_cmd exe w args) = Raises OSError))
   \<and> run_fsharp_cmd py exe w args =
        \<lparr>result =
           (case engine_try py w (engine_cmd exe w args) of
              Raises e \<Rightarrow>
                (case print_error w e of
                   Returns u \<Rightarrow> Returns (Fin 0)
                 | Raises x \<Rightarrow> Raises x
                 | Blocks \<Rightarrow> Blocks)
            | r \<Rightarrow> r),
         spawned = [engine_cmd exe w args]\<rparr>"
  by (simp add: engine_cmd_def run_fsharp_cmd_def engine_try_def Let_def)

theorem command_choice_witness:
  "engine_cmd ''./bin/FinanceCore''
      \<lparr>os_path_exists = (\<lambda>p. False), shutil_which = (\<lambda>c. Some ''/usr/bin/dotnet''),
       subprocess_run = (\<lambda>cmd. Never_exits), print_error = (\<lambda>e. Returns ())\<rparr> [''wacc'', ''1'']
     = [''dotnet'', ''run'', ''--project'', ''./calculations/FinanceCore.fsproj'', ''--'',
        ''wacc'', ''1'']
   \<and> engine_cmd ''./bin/FinanceCore''
      \<lparr>os_path_exists = (\<lambda>p. True), shutil_which = (\<lambda>c. Some ''/usr/bin/dotnet''),
       subprocess_run = (\<lambda>cmd. Never_exits), print_error = (\<lambda>e. Returns ())\<rparr> [''wacc'', ''1'']
     = [''./bin/FinanceCore'', ''wacc'', ''1'']
   \<and> engine_cmd (FSHARP_EXEC Map.empty) unreachable_world [''wacc'', ''1'']
     = [''./calculations/bin/Release/net6.0/FinanceCore'', ''wacc'', ''1'']
   \<and> engine_try sample_builtins unreachable_world
        (engine_cmd (FSHARP_EXEC Map.empty) unreachable_world [''wacc'', ''1''])
     = Raises OSError"
  using command_choice [where w = "\<lparr>os_path_exists = (\<lambda>p. False),
                             shutil_which = (\<lambda>c. Some ''/usr/bin/dotnet''),
                             subprocess_run = (\<lambda>cmd. Never_exits),
                             print_error = (\<lambda>e. Returns ())\<rparr>"
                          and exe = "''./bin/FinanceCore''" and args = "[''wacc'', ''1'']"
                          and py = sample_builtins]
        command_choice [where w = "\<lparr>os_path_exists = (\<lambda>p. True),
                             shutil_which = (\<lambda>c. Some ''/usr/bin/dotnet''),
                             subprocess_run = (\<lambda>cmd. Never_exits),
                             print_error = (\<lambda>e. Returns ())\<rparr>"
                          and exe = "''./bin/FinanceCore''" and args = "[''wacc'', ''1'']"
                          and py = sample_builtins]
        command_choice [where w = unreachable_world and exe = "FSHARP_EXEC Map.empty"
                          and args = "[''wacc'', ''1'']" and py = sample_builtins]
  by (simp add: unreachable_world_def FSHARP_EXEC_def engine_try_def)

subsection \<open>The output of the engine\<close>

text \<open>
  Claim C3, as stated: any output other than one numeric token gives the value \<open>0.0\<close>.
  This fails for an engine that prints \<open>nan\<close> and exits with status zero: the word is
  not a number, \<open>float\<close> accepts it, and the value returned is the float \<open>nan\<close>.
\<close>

theorem output_counterexample:
  "subprocess_run nan_world
       (engine_cmd (FSHARP_EXEC Map.empty) nan_world [''wacc'', ''0'', ''0'', ''0'', ''0'', ''0''])
     = Exited 0 (''nan'' @ [CHR 0x0A])
   \<and> result (run_fsharp_cmd sample_builtins (FSHARP_EXEC Map.empty) nan_world
                [''wacc'', ''0'', ''0'', ''0'', ''0'', ''0''])
     = Returns NaN
   \<and> result (run_fsharp_cmd sample_builtins (FSHARP_EXEC Map.empty) nan_world
                [''wacc'', ''0'', ''0'', ''0'', ''0'', ''0''])
     \<noteq> Returns (Fin 0)"
  by (simp add: run_fsharp_cmd_def engine_try_def Let_def nan_world_def py_float_eval)

text \<open>
  Claim C3, amended. When the process exits with status zero and its output is one
  token that \<open>float\<close> accepts, with whitespace before and after it or not,
  \<open>run_fsharp_cmd\<close> returns the float that \<open>float\<close> gives for the token. When the
  status is not zero, or \<open>float\<close> rejects the stripped output, or the output cannot
  be decoded, and the \<open>print\<close> of the handler completes, it returns \<open>0.0\<close>. The cases cover every output, since any output
  is its stripped form between two runs of whitespace. What \<open>float\<close> accepts is more
  than the decimal numbers: the words \<open>nan\<close>, \<open>inf\<close> and \<open>infinity\<close>, with a sign or
  not, and digits with underscores between them.
\<close>

theorem output_contract:
  "(subprocess_run w (engine_cmd exe w args) = Exited 0 (lead @ tok @ trail)
      \<and> list_all py_isspace lead \<and> list_all py_isspace trail
      \<and> tok \<noteq> [] \<and> \<not> py_isspace (hd tok) \<and> \<not> py_isspace (last tok)
      \<and> py_float py tok = Some v \<longrightarrow>
      result (run_fsharp_cmd py exe w args) = Returns v)
   \<and> (subprocess_run w (engine_cmd exe w args) = Exited rc out \<and> rc \<noteq> 0
      \<and> print_error w (CalledProcessError rc) = Returns () \<longrightarrow>
      result (run_fsharp_cmd py exe w args) = Returns (Fin 0))
   \<and> (subprocess_run w (engine_cmd exe w args) = Exited 0 out
      \<and> py_float py (py_strip out) = None \<and> print_error w ValueError = Returns () \<longrightarrow>
      result (run_fsharp_cmd py exe w args) = Returns (Fin 0))
   \<and> (subprocess_run w (engine_cmd exe w args) = Undecodable
      \<and> print_error w ValueError = Returns () \<longrightarrow>
      result (run_fsharp_cmd py exe w args) = Returns (Fin 0))
   \<and> (\<exists>l r. out = l @ py_strip out @ r \<and> list_all py_isspace l \<and> list_all py_isspace r)
   \<and> py_float py ''nan'' = Some NaN
   \<and> py_float py ''inf'' = Some PosInf
   \<and> py_float py ''-Infinity'' = Some NegInf
   \<and> py_float py ''1_0'' = Some (nearest_double py 10)
   \<and> py_float py ''-0.0'' = Some NegZero"
proof -
  have token: "result (run_fsharp_cmd py exe w args) = Returns v"
    if "subprocess_run w (engine_cmd exe w args) = Exited 0 (lead @ tok @ trail)"
       "list_all py_isspace lead" "list_all py_isspace trail"
       "tok \<noteq> []" "\<not> py_isspace (hd tok)" "\<not> py_isspace (last tok)"
       "py_float py tok = Some v"
  proof -
    have "py_float py (py_strip (lead @ tok @ trail)) = py_float py tok"
      using that(2-6) by (rule py_float_token)
    with that(1,7) have "engine_try py w (engine_cmd exe w args) = Returns v"
      by (simp add: engine_try_def)
    then show ?thesis by (rule run_result_Returns)
  qed
  have status: "result (run_fsharp_cmd py exe w args) = Returns (Fin 0)"
    if "subprocess_run w (engine_cmd exe w args) = Exited rc out" "rc \<noteq> 0"
       "print_error w (CalledProcessError rc) = Returns ()"
  proof -
    have "engine_try py w (engine_cmd exe w args) = Raises (CalledProcessError rc)"
      using that(1,2) by (simp add: engine_try_def)
    then show ?thesis using that(3) by (rule run_result_Raises)
  qed
  have rejected: "result (run_fsharp_cmd py exe w args) = Returns (Fin 0)"
    if "subprocess_run w (engine_cmd exe w args) = Exited 0 out"
       "py_float py (py_strip out) = None" "print_error w ValueError = Returns ()"
  proof -
    have "engine_try py w (engine_cmd exe w args) = Raises ValueError"
      using that(1,2) by (simp add: engine_try_def)
    then show ?thesis using that(3) by (rule run_result_Raises)
  qed
  have undecodable: "result (run_fsharp_cmd py exe w args) = Returns (Fin 0)"
    if "subprocess_run w (engine_cmd exe w args) = Undecodable"
       "print_error w ValueError = Returns ()"
  proof -
    have "engine_try py w (engine_cmd exe w args) = Raises ValueError"
      using that(1) by (simp add: engine_try_def)
    then show ?thesis using that(2) by (rule run_result_Raises)
  qed
  have words: "py_float py ''nan'' = Some NaN" "py_float py ''inf'' = Some PosInf"
    "py_float py ''-Infinity'' = Some NegInf" "py_float py ''1_0'' = Some (nearest_double py 10)"
    "py_float py ''-0.0'' = Some NegZero"
    by (simp_all add: py_float_eval)
  from token status rejected undecodable words py_strip_decompose [of out]
  show ?thesis by blast
qed

theorem output_contract_witness:
  "result (run_fsharp_cmd sample_builtins (FSHARP_EXEC Map.empty) zero_world
             [''npv'', ''0'', ''-100,100''])
     = Returns (Fin 0)
   \<and> result (run_fsharp_cmd sample_builtins ''engine''
        \<lparr>os_path_exists = (\<lambda>p. True), shutil_which = (\<lambda>c. None),
         subprocess_run = (\<lambda>cmd. Exited 0 ('' 1081.5'' @ [CHR 0x0A])),
         print_error = (\<lambda>e. Returns ())\<rparr> [''bond''])
     = Returns (Fin (2163 / 2))
   \<and> result (run_fsharp_cmd sample_builtins ''engine''
        \<lparr>os_path_exists = (\<lambda>p. True), shutil_which = (\<lambda>c. None),
         subprocess_run = (\<lambda>cmd. Exited 0 ''price: 12''),
         print_error = (\<lambda>e. Returns ())\<rparr> [''bond''])
     = Returns (Fin 0)
   \<and> result (run_fsharp_cmd sample_builtins ''engine''
        \<lparr>os_path_exists = (\<lambda>p. True), shutil_which = (\<lambda>c. None),
         subprocess_run = (\<lambda>cmd. Exited 1 ''12.5''),
         print_error = (\<lambda>e. Returns ())\<rparr> [''bond''])
     = Returns (Fin 0)"
proof -
  have sp: "py_isspace CHR '' ''" "py_isspace (CHR 0x0A)"
    by (simp_all add: py_isspace_def whitespace_def)
  have tk: "\<not> py_isspace CHR ''0''" "\<not> py_isspace CHR ''1''" "\<not> py_isspace CHR ''5''"
    by (simp_all add: py_isspace_def whitespace_def)
  have fl: "py_float sample_builtins ''0.0'' = Some (Fin 0)"
           "py_float sample_builtins ''1081.5'' = Some (Fin (2163 / 2))"
           "py_float sample_builtins (py_strip ''price: 12'') = None"
    by (simp_all add: py_float_eval sample_builtins_def)
  have zero: "result (run_fsharp_cmd sample_builtins (FSHARP_EXEC Map.empty) zero_world
             [''npv'', ''0'', ''-100,100'']) = Returns (Fin 0)"
    using output_contract [where w = zero_world and exe = "FSHARP_EXEC Map.empty"
         and args = "[''npv'', ''0'', ''-100,100'']" and lead = "[]" and tok = "''0.0''"
         and trail = "[CHR 0x0A]" and v = "Fin 0" and py = sample_builtins
         and rc = 0 and out = "[]"]
    by (clarsimp simp: sp tk fl zero_world_def)
  have token: "result (run_fsharp_cmd sample_builtins ''engine''
        \<lparr>os_path_exists = (\<lambda>p. True), shutil_which = (\<lambda>c. None),
         subprocess_run = (\<lambda>cmd. Exited 0 ('' 1081.5'' @ [CHR 0x0A])),
         print_error = (\<lambda>e. Returns ())\<rparr> [''bond'']) = Returns (Fin (2163 / 2))"
    using output_contract [where w = "\<lparr>os_path_exists = (\<lambda>p. True), shutil_which = (\<lambda>c. None),
         subprocess_run = (\<lambda>cmd. Exited 0 ('' 1081.5'' @ [CHR 0x0A])),
         print_error = (\<lambda>e. Returns ())\<rparr>"
         and exe = "''engine''" and args = "[''bond'']" and lead = "'' ''" and tok = "''1081.5''"
         and trail = "[CHR 0x0A]" and v = "Fin (2163 / 2)" and py = sample_builtins
         and rc = 0 and out = "[]"]
    by (clarsimp simp: sp tk fl)
  have other: "result (run_fsharp_cmd sample_builtins ''engine''
        \<lparr>os_path_exists = (\<lambda>p. True), shutil_which = (\<lambda>c. None),
         subprocess_run = (\<lambda>cmd. Exited 0 ''price: 12''),
         print_error = (\<lambda>e. Returns ())\<rparr> [''bond'']) = Returns (Fin 0)"
    using output_contract [where w = "\<lparr>os_path_exists = (\<lambda>p. True), shutil_which = (\<lambda>c. None),
         subprocess_run = (\<lambda>cmd. Exited 0 ''price: 12''),
         print_error = (\<lambda>e. Returns ())\<rparr>"
         and exe = "''engine''" and args = "[''bond'']" and out = "''price: 12''"
         and py = sample_builtins and rc = 0 and lead = "[]" and tok = "[]" and trail = "[]"
         and v = NaN]
    by (clarsimp simp: fl)
  have status: "result (run_fsharp_cmd sample_builtins ''engine''
        \<lparr>os_path_exists = (\<lambda>p. True), shutil_which = (\<lambda>c. None),
         subprocess_run = (\<lambda>cmd. Exited 1 ''12.5''),
         print_error = (\<lambda>e. Returns ())\<rparr> [''bond'']) = Returns (Fin 0)"
    using output_contract [where w = "\<lparr>os_path_exists = (\<lambda>p. True), shutil_which = (\<lambda>c. None),
         subprocess_run = (\<lambda>cmd. Exited 1 ''12.5''),
         print_error = (\<lambda>e. Returns ())\<rparr>"
         and exe = "''engine''" and args = "[''bond'']" and rc = 1 and out = "''12.5''"
         and py = sample_builtins and lead = "[]" and tok = "[]" and trail = "[]" and v = NaN]
    by clarsimp
  from zero token other status show ?thesis by simp
qed

subsection \<open>The argument vectors of the builders\<close>

text \<open>
  Claim C4, as stated: for every input each builder passes its vector to the engine.
  This fails for an integer with more digits than the interpreter converts: \<open>str\<close>
  raises \<open>ValueError\<close> while the argument list is built, before \<open>run_fsharp_cmd\<close> is
  entered, so the exception reaches the caller and no process is started.
\<close>

theorem argument_counterexample:
  "calculate_bond sample_builtins (FSHARP_EXEC Map.empty) zero_world
       (PyInt huge_int) (PyInt 5) (PyInt 4) (PyInt 10) None
     = \<lparr>result = Raises ValueError, spawned = []\<rparr>"
  by (simp add: calculate_bond_def str_int_huge)

text \<open>
  Claim C4, amended. For every input whose values \<open>str\<close> converts, each builder makes
  one call of \<open>subprocess.run\<close>, with the command prefix followed by the vector of its
  protocol, every value passed through \<open>str\<close>: \<open>bond\<close> with face, coupon, market,
  years and the frequency, which is \<open>2\<close> when the caller leaves it out; \<open>wacc\<close> with its
  five values; \<open>option\<close> with its five values and the kind, a string, which \<open>str\<close>
  would leave as it is; \<open>npv\<close> with the rate and the flows joined by commas into one
  argument. The result of the builder is that of \<open>run_fsharp_cmd\<close> on the vector.
  \<open>str\<close> converts every float and every string, and every integer within the limit
  on digits.
\<close>

theorem argument_vectors:
  "let prefix = (if \<not> os_path_exists w exe \<and> truthy (shutil_which w ''dotnet'')
                 then [''dotnet'', ''run'', ''--project'', ''./calculations/FinanceCore.fsproj'',
                       ''--'']
                 else [exe])
   in (py_str py face = Inr f \<and> py_str py coupon = Inr c \<and> py_str py market = Inr m
         \<and> py_str py years = Inr y \<longrightarrow>
         calculate_bond py exe w face coupon market years None
           = run_fsharp_cmd py exe w [''bond'', f, c, m, y, ''2'']
         \<and> spawned (calculate_bond py exe w face coupon market years None)
           = [prefix @ [''bond'', f, c, m, y, ''2'']])
    \<and> (py_str py face = Inr f \<and> py_str py coupon = Inr c \<and> py_str py market = Inr m
         \<and> py_str py years = Inr y \<and> py_str py freq = Inr q \<longrightarrow>
         calculate_bond py exe w face coupon market years (Some freq)
           = run_fsharp_cmd py exe w [''bond'', f, c, m, y, q]
         \<and> spawned (calculate_bond py exe w face coupon market years (Some freq))
           = [prefix @ [''bond'', f, c, m, y, q]])
    \<and> (py_str py equity = Inr eq \<and> py_str py debt = Inr d \<and> py_str py cost_e = Inr ce
         \<and> py_str py cost_d = Inr cd \<and> py_str py tax = Inr t \<longrightarrow>
         calculate_wacc py exe w equity debt cost_e cost_d tax
           = run_fsharp_cmd py exe w [''wacc'', eq, d, ce, cd, t]
         \<and> spawned (calculate_wacc py exe w equity debt cost_e cost_d tax)
           = [prefix @ [''wacc'', eq, d, ce, cd, t]])
    \<and> (py_str py spot = Inr sp \<and> py_str py strike = Inr st \<and> py_str py time = Inr ti
         \<and> py_str py rate = Inr ra \<and> py_str py vol = Inr vo \<longrightarrow>
         calculate_option py exe w spot strike time rate vol kind
           = run_fsharp_cmd py exe w [''option'', sp, st, ti, ra, vo, kind]
         \<and> spawned (calculate_option py exe w spot strike time rate vol kind)
           = [prefix @ [''option'', sp, st, ti, ra, vo, kind]])
    \<and> (list_all2 (\<lambda>v s. py_str py v = Inr s) flows fs \<and> py_str py rate = Inr ra \<longrightarrow>
         calculate_npv py exe w rate flows
           = run_fsharp_cmd py exe w [''npv'', ra, py_join '','' fs]
         \<and> spawned (calculate_npv py exe w rate flows)
           = [prefix @ [''npv'', ra, py_join '','' fs]])
    \<and> py_str py (PyFloat x) = Inr (str_of_float py x)
    \<and> py_str py (PyStr kind) = Inr kind
    \<and> (\<bar>i\<bar> < 10 ^ k \<and> k \<le> int_max_str_digits py \<or> int_max_str_digits py = 0 \<longrightarrow>
         py_str py (PyInt i)
           = Inr (if i < 0 then CHR ''-'' # str_nat (nat (- i)) else str_nat (nat i)))"
proof -
  let ?prefix = "if \<not> os_path_exists w exe \<and> truthy (shutil_which w ''dotnet'')
                 then [''dotnet'', ''run'', ''--project'', ''./calculations/FinanceCore.fsproj'',
                       ''--'']
                 else [exe]"
  have spw: "spawned (run_fsharp_cmd py exe w a) = [?prefix @ a]" for a
    by (simp add: run_spawned engine_cmd_def)
  have two: "py_str py (PyInt 2) = Inr ''2''"
    by (simp add: str_int_2)
  have bond_default: "calculate_bond py exe w face coupon market years None
           = run_fsharp_cmd py exe w [''bond'', f, c, m, y, ''2'']"
    if "py_str py face = Inr f" "py_str py coupon = Inr c" "py_str py market = Inr m"
       "py_str py years = Inr y"
    using that two by (simp add: calculate_bond_def)
  have bond: "calculate_bond py exe w face coupon market years (Some freq)
           = run_fsharp_cmd py exe w [''bond'', f, c, m, y, q]"
    if "py_str py face = Inr f" "py_str py coupon = Inr c" "py_str py market = Inr m"
       "py_str py years = Inr y" "py_str py freq = Inr q"
    using that by (simp add: calculate_bond_def)
  have wacc: "calculate_wacc py exe w equity debt cost_e cost_d tax
           = run_fsharp_cmd py exe w [''wacc'', eq, d, ce, cd, t]"
    if "py_str py equity = Inr eq" "py_str py debt = Inr d" "py_str py cost_e = Inr ce"
       "py_str py cost_d = Inr cd" "py_str py tax = Inr t"
    using that by (simp add: calculate_wacc_def)
  have opt: "calculate_option py exe w spot strike time rate vol kind
           = run_fsharp_cmd py exe w [''option'', sp, st, ti, ra, vo, kind]"
    if "py_str py spot = Inr sp" "py_str py strike = Inr st" "py_str py time = Inr ti"
       "py_str py rate = Inr ra" "py_str py vol = Inr vo"
    using that by (simp add: calculate_option_def)
  have npv: "calculate_npv py exe w rate flows
           = run_fsharp_cmd py exe w [''npv'', ra, py_join '','' fs]"
    if "list_all2 (\<lambda>v s. py_str py v = Inr s) flows fs" "py_str py rate = Inr ra"
  proof -
    from that(1) have "str_each py flows = Inr fs"
      by (simp add: str_each_list_all2)
    with that(2) show ?thesis by (simp add: calculate_npv_def)
  qed
  have int: "py_str py (PyInt i)
           = Inr (if i < 0 then CHR ''-'' # str_nat (nat (- i)) else str_nat (nat i))"
    if "\<bar>i\<bar> < 10 ^ k \<and> k \<le> int_max_str_digits py \<or> int_max_str_digits py = 0"
      proof -
    have "str_int py i = Inr (if i < 0 then CHR ''-'' # str_nat (nat (- i)) else str_nat (nat i))"
      using that
    proof
      assume "\<bar>i\<bar> < 10 ^ k \<and> k \<le> int_max_str_digits py"
      then show ?thesis using str_int_within [of i k py] by blast
    next
      assume "int_max_str_digits py = 0"
      then show ?thesis by (rule str_int_unlimited)
    qed
    then show ?thesis by simp
  qed
  have c1: "py_str py face = Inr f \<and> py_str py coupon = Inr c \<and> py_str py market = Inr m
         \<and> py_str py years = Inr y \<longrightarrow>
         calculate_bond py exe w face coupon market years None
           = run_fsharp_cmd py exe w [''bond'', f, c, m, y, ''2'']
         \<and> spawned (calculate_bond py exe w face coupon market years None)
           = [?prefix @ [''bond'', f, c, m, y, ''2'']]"
    using bond_default spw [of "[''bond'', f, c, m, y, ''2'']"] by simp
  have c2: "py_str py face = Inr f \<and> py_str py coupon = Inr c \<and> py_str py market = Inr m
         \<and> py_str py years = Inr y \<and> py_str py freq = Inr q \<longrightarrow>
         calculate_bond py exe w face coupon market years (Some freq)
           = run_fsharp_cmd py exe w [''bond'', f, c, m, y, q]
         \<and> spawned (calculate_bond py exe w face coupon market years (Some freq))
           = [?prefix @ [''bond'', f, c, m, y, q]]"
    using bond spw [of "[''bond'', f, c, m, y, q]"] by simp
  have c3: "py_str py equity = Inr eq \<and> py_str py debt = Inr d \<and> py_str py cost_e = Inr ce
         \<and> py_str py cost_d = Inr cd \<and> py_str py tax = Inr t \<longrightarrow>
         calculate_wacc py exe w equity debt cost_e cost_d tax
           = run_fsharp_cmd py exe w [''wacc'', eq, d, ce, cd, t]
         \<and> spawned (calculate_wacc py exe w equity debt cost_e cost_d tax)
           = [?prefix @ [''wacc'', eq, d, ce, cd, t]]"
    using wacc spw [of "[''wacc'', eq, d, ce, cd, t]"] by simp
  have c4: "py_str py spot = Inr sp \<and> py_str py strike = Inr st \<and> py_str py time = Inr ti
         \<and> py_str py rate = Inr ra \<and> py_str py vol = Inr vo \<longrightarrow>
         calculate_option py exe w spot strike time rate vol kind
           = run_fsharp_cmd py exe w [''option'', sp, st, ti, ra, vo, kind]
         \<and> spawned (calculate_option py exe w spot strike time rate vol kind)
           = [?prefix @ [''option'', sp, st, ti, ra, vo, kind]]"
    using opt spw [of "[''option'', sp, st, ti, ra, vo, kind]"] by simp
  have c5: "list_all2 (\<lambda>v s. py_str py v = Inr s) flows fs \<and> py_str py rate = Inr ra \<longrightarrow>
         calculate_npv py exe w rate flows
           = run_fsharp_cmd py exe w [''npv'', ra, py_join '','' fs]
         \<and> spawned (calculate_npv py exe w rate flows)
           = [?prefix @ [''npv'', ra, py_join '','' fs]]"
    using npv spw [of "[''npv'', ra, py_join '','' fs]"] by simp
  have c6: "py_str py (PyFloat x) = Inr (str_of_float py x)" by simp
  have c7: "py_str py (PyStr kind) = Inr kind" by simp
  have c8: "\<bar>i\<bar> < 10 ^ k \<and> k \<le> int_max_str_digits py \<or> int_max_str_digits py = 0 \<longrightarrow>
         py_str py (PyInt i)
           = Inr (if i < 0 then CHR ''-'' # str_nat (nat (- i)) else str_nat (nat i))"
    using int by blast
  show ?thesis
    unfolding Let_def by (intro conjI c1 c2 c3 c4 c5 c6 c7 c8)
qed

theorem argument_vectors_witness:
  "spawned (calculate_wacc sample_builtins (FSHARP_EXEC Map.empty) zero_world
              (PyInt 100) (PyInt 100) (PyFloat (Fin 0)) (PyFloat NegZero) (PyInt 0))
     = [[''./calculations/bin/Release/net6.0/FinanceCore'',
         ''wacc'', ''100'', ''100'', ''0.0'', ''-0.0'', ''0'']]
   \<and> spawned (calculate_bond sample_builtins ''./bin/FinanceCore''
        \<lparr>os_path_exists = (\<lambda>p. False), shutil_which = (\<lambda>c. Some ''/usr/bin/dotnet''),
         subprocess_run = (\<lambda>cmd. Never_exits), print_error = (\<lambda>e. Returns ())\<rparr>
        (PyInt 1000) (PyInt 5) (PyInt 4) (PyInt 10) None)
     = [[''dotnet'', ''run'', ''--project'', ''./calculations/FinanceCore.fsproj'', ''--'',
         ''bond'', ''1000'', ''5'', ''4'', ''10'', ''2'']]
   \<and> spawned (calculate_npv sample_builtins (FSHARP_EXEC Map.empty) zero_world
              (PyInt 0) [PyInt (- 100), PyInt 60, PyInt 40])
     = [[''./calculations/bin/Release/net6.0/FinanceCore'', ''npv'', ''0'', ''-100,60,40'']]"
proof -
  have lim: "4 \<le> int_max_str_digits sample_builtins"
    by (simp add: sample_builtins_def)
  have n: "str_int sample_builtins 100 = Inr ''100''"
          "str_int sample_builtins 0 = Inr ''0''"
          "str_int sample_builtins 1000 = Inr ''1000''"
          "str_int sample_builtins 5 = Inr ''5''"
          "str_int sample_builtins 4 = Inr ''4''"
          "str_int sample_builtins 10 = Inr ''10''"
          "str_int sample_builtins (- 100) = Inr ''-100''"
          "str_int sample_builtins 60 = Inr ''60''"
          "str_int sample_builtins 40 = Inr ''40''"
    using lim by (simp_all add: str_int_within [where k = 4] digit_char_def)
  have x: "str_of_float sample_builtins (Fin 0) = ''0.0''"
          "str_of_float sample_builtins NegZero = ''-0.0''"
    by (simp_all add: sample_builtins_def)
  have wacc: "spawned (calculate_wacc sample_builtins (FSHARP_EXEC Map.empty) zero_world
              (PyInt 100) (PyInt 100) (PyFloat (Fin 0)) (PyFloat NegZero) (PyInt 0))
     = [[''./calculations/bin/Release/net6.0/FinanceCore'',
         ''wacc'', ''100'', ''100'', ''0.0'', ''-0.0'', ''0'']]"
    using argument_vectors [where py = sample_builtins and exe = "FSHARP_EXEC Map.empty"
          and w = zero_world and equity = "PyInt 100" and debt = "PyInt 100"
          and cost_e = "PyFloat (Fin 0)" and cost_d = "PyFloat NegZero" and tax = "PyInt 0"
          and eq = "''100''" and d = "''100''" and ce = "''0.0''" and cd = "''-0.0''"
          and t = "''0''"
          and face = PyNone and f = "[]" and coupon = PyNone and c = "[]" and market = PyNone
          and m = "[]" and years = PyNone and y = "[]" and freq = PyNone and q = "[]"
          and spot = PyNone and sp = "[]" and strike = PyNone and st = "[]" and time = PyNone
          and ti = "[]" and rate = PyNone and ra = "[]" and vol = PyNone and vo = "[]"
          and kind = "[]" and flows = "[]" and fs = "[]" and x = NaN and i = 0 and k = 0]
    by (clarsimp simp: n x Let_def zero_world_def FSHARP_EXEC_def digit_char_def)
  have bond: "spawned (calculate_bond sample_builtins ''./bin/FinanceCore''
        \<lparr>os_path_exists = (\<lambda>p. False), shutil_which = (\<lambda>c. Some ''/usr/bin/dotnet''),
         subprocess_run = (\<lambda>cmd. Never_exits), print_error = (\<lambda>e. Returns ())\<rparr>
        (PyInt 1000) (PyInt 5) (PyInt 4) (PyInt 10) None)
     = [[''dotnet'', ''run'', ''--project'', ''./calculations/FinanceCore.fsproj'', ''--'',
         ''bond'', ''1000'', ''5'', ''4'', ''10'', ''2'']]"
    using argument_vectors [where py = sample_builtins and exe = "''./bin/FinanceCore''"
          and w = "\<lparr>os_path_exists = (\<lambda>p. False),
                     shutil_which = (\<lambda>c. Some ''/usr/bin/dotnet''),
                     subprocess_run = (\<lambda>cmd. Never_exits), print_error = (\<lambda>e. Returns ())\<rparr>"
          and face = "PyInt 1000" and coupon = "PyInt 5" and market = "PyInt 4"
          and years = "PyInt 10" and f = "''1000''" and c = "''5''" and m = "''4''"
          and y = "''10''" and freq = PyNone and q = "[]"
          and equity = PyNone and eq = "[]" and debt = PyNone and d = "[]" and cost_e = PyNone
          and ce = "[]" and cost_d = PyNone and cd = "[]" and tax = PyNone and t = "[]"
          and spot = PyNone and sp = "[]" and strike = PyNone and st = "[]" and time = PyNone
          and ti = "[]" and rate = PyNone and ra = "[]" and vol = PyNone and vo = "[]"
          and kind = "[]" and flows = "[]" and fs = "[]" and x = NaN and i = 0 and k = 0]
    by (clarsimp simp: n x Let_def digit_char_def)
  have npv: "spawned (calculate_npv sample_builtins (FSHARP_EXEC Map.empty) zero_world
              (PyInt 0) [PyInt (- 100), PyInt 60, PyInt 40])
     = [[''./calculations/bin/Release/net6.0/FinanceCore'', ''npv'', ''0'', ''-100,60,40'']]"
    using argument_vectors [where py = sample_builtins and exe = "FSHARP_EXEC Map.empty"
          and w = zero_world and rate = "PyInt 0"
          and flows = "[PyInt (- 100), PyInt 60, PyInt 40]" and ra = "''0''"
          and fs = "[''-100'', ''60'', ''40'']"
          and face = PyNone and f = "[]" and coupon = PyNone and c = "[]" and market = PyNone
          and m = "[]" and years = PyNone and y = "[]" and freq = PyNone and q = "[]"
          and equity = PyNone and eq = "[]" and debt = PyNone and d = "[]" and cost_e = PyNone
          and ce = "[]" and cost_d = PyNone and cd = "[]" and tax = PyNone and t = "[]"
          and spot = PyNone and sp = "[]" and strike = PyNone and st = "[]" and time = PyNone
          and ti = "[]" and vol = PyNone and vo = "[]"
          and kind = "[]" and x = NaN and i = 0 and k = 0]
    by (clarsimp simp: n x Let_def zero_world_def FSHARP_EXEC_def digit_char_def)
  from wacc bond npv show ?thesis by simp
qed

section \<open>Properties of the arithmetic evaluator\<close>

text \<open>
  Claim C9. For every operand \<open>a\<close>, \<open>divide(a, 0)\<close> fails with \<open>DivisionByZero\<close>, for the
  integer zero and for the float zero; the test is an exact comparison. For every
  \<open>b\<close> other than zero \<open>divide(a, b)\<close> returns the quotient as a float, also when both
  operands are integers.
\<close>

theorem divide_contract:
  "divide_py a (Integral 0) = Inl DivisionByZero
   \<and> divide_py a (Floating 0) = Inl DivisionByZero
   \<and> (number_value b = 0 \<longrightarrow> divide_py a b = Inl DivisionByZero)
   \<and> (number_value b \<noteq> 0 \<longrightarrow>
        divide_py a b = Inr (Floating (number_value a / number_value b)))
   \<and> divide_py (Integral 6) (Integral 3) = Inr (Floating 2)"
  by (simp add: divide_py_def)

theorem divide_contract_witness:
  "divide_py (Integral 6) (Integral 0) = Inl DivisionByZero
   \<and> divide_py (Integral 0) (Integral 5) = Inr (Floating 0)
   \<and> divide_py (Floating 1) (Floating (1 / 10 ^ 300)) = Inr (Floating (10 ^ 300))"
  using divide_contract [of "Integral 6" "Integral 0"]
        divide_contract [of "Integral 0" "Integral 5"]
        divide_contract [of "Floating 1" "Floating (1 / 10 ^ 300)"]
  by simp

end

